theory Spec2Isabelle
  imports Main "HOL-Library.Sublist" "HOL-Library.Char_ord" "HOL-Library.List_Lexorder"
    "HOL-Library.Product_Lexorder" "HOL-Library.Multiset"
begin

section \<open>The video controller of the media catalogue backend\<close>

text \<open>
  This theory embeds \<^verbatim>\<open>src/controllers/video.controller.js\<close>: the eight request handlers
  \<^verbatim>\<open>getAllVideos\<close>, \<^verbatim>\<open>getVideoById\<close>, \<^verbatim>\<open>updateVideoById\<close>, \<^verbatim>\<open>updateAllVideo\<close>,
  \<^verbatim>\<open>publishVideo\<close>, \<^verbatim>\<open>deleteVideo\<close>, \<^verbatim>\<open>updateVideoPublishStatus\<close> and
  \<^verbatim>\<open>getRelatedVideos\<close>. A handler is a function from the request and the state of the
  system (record store, cache, log of effects) to a reply or an error, and the new state.
  Every \<^verbatim>\<open>throw\<close> of the source is an \<open>Inl\<close> branch; every call to the record store, to the
  cache and to the object storage appends an event to the log, in the order of the source's
  \<^verbatim>\<open>await\<close>s.
\<close>

subsection \<open>JavaScript strings\<close>

text \<open>
  Strings are byte lists. Case folding and white space are the ASCII ones; characters
  outside ASCII are left alone.
\<close>

definition isUpper :: "char \<Rightarrow> bool" where
  "isUpper c = (65 \<le> (of_char c :: nat) \<and> (of_char c :: nat) \<le> 90)"

definition lowerChar :: "char \<Rightarrow> char" where
  "lowerChar c = (if isUpper c then char_of ((of_char c :: nat) + 32) else c)"

text \<open>\<^verbatim>\<open>String.prototype.toLowerCase\<close>.\<close>

definition toLowerCase :: "string \<Rightarrow> string" where
  "toLowerCase s = map lowerChar s"

text \<open>The white space of \<^verbatim>\<open>trim\<close> and \<^verbatim>\<open>parseInt\<close>: space, TAB, LF, VT, FF, CR.\<close>

definition isSpace :: "char \<Rightarrow> bool" where
  "isSpace c = ((of_char c :: nat) = 32 \<or> (9 \<le> (of_char c :: nat) \<and> (of_char c :: nat) \<le> 13))"

text \<open>\<^verbatim>\<open>String.prototype.trim\<close>.\<close>

definition trim :: "string \<Rightarrow> string" where
  "trim s = rev (dropWhile isSpace (rev (dropWhile isSpace s)))"

text \<open>
  \<^verbatim>\<open>s.split(" ")\<close>: the pieces between single space characters. Two spaces in a row, or a
  space at either end, give an empty piece; the result is never the empty list.
\<close>

fun splitSpace :: "string \<Rightarrow> string list" where
  "splitSpace [] = [[]]"
| "splitSpace (c # cs) =
     (if c = CHR '' '' then [] # splitSpace cs
      else (case splitSpace cs of
              [] \<Rightarrow> [[c]]
            | w # ws \<Rightarrow> (c # w) # ws))"

text \<open>
  \<^verbatim>\<open>parseInt(s, 10)\<close>: leading white space is skipped, one sign is read, then the longest
  run of decimal digits; \<open>None\<close> is \<^verbatim>\<open>NaN\<close> (no digit). The value is an unbounded integer:
  the rounding of a JavaScript number beyond \<open>2^53\<close> is outside the model.
\<close>

definition isDigit :: "char \<Rightarrow> bool" where
  "isDigit c = (48 \<le> (of_char c :: nat) \<and> (of_char c :: nat) \<le> 57)"

definition digitsValue :: "string \<Rightarrow> int" where
  "digitsValue ds = foldl (\<lambda>acc c. 10 * acc + (int (of_char c) - 48)) 0 ds"

definition parseDigits :: "string \<Rightarrow> int option" where
  "parseDigits s =
     (let ds = takeWhile isDigit s in if ds = [] then None else Some (digitsValue ds))"

definition parseInt :: "string \<Rightarrow> int option" where
  "parseInt s =
     (case dropWhile isSpace s of
        [] \<Rightarrow> None
      | c # cs \<Rightarrow>
          if c = CHR ''-'' then map_option uminus (parseDigits cs)
          else if c = CHR ''+'' then parseDigits cs
          else parseDigits (c # cs))"

text \<open>\<^verbatim>\<open>Array.prototype.join\<close>.\<close>

fun joinWith :: "string \<Rightarrow> string list \<Rightarrow> string" where
  "joinWith sep [] = []"
| "joinWith sep [x] = x"
| "joinWith sep (x # y # ys) = x @ sep @ joinWith sep (y # ys)"

subsection \<open>Record identifiers\<close>

text \<open>
  The identifiers of the document store (\<^verbatim>\<open>mongoose\<close>, not part of the repository). A stored
  identifier is its canonical text of 24 lower-case hexadecimal digits.
  \<^verbatim>\<open>isValidObjectId\<close> accepts what \<^verbatim>\<open>new Types.ObjectId\<close> can read: 24 hexadecimal digits
  in either case, or any 12 bytes; \<open>ObjectId\<close> gives the canonical text of such an input.
\<close>

type_synonym objectId = string

definition isHex :: "char \<Rightarrow> bool" where
  "isHex c = (isDigit c \<or> (97 \<le> (of_char (lowerChar c) :: nat) \<and> (of_char (lowerChar c) :: nat) \<le> 102))"

definition isValidObjectId :: "string \<Rightarrow> bool" where
  "isValidObjectId v = ((length v = 24 \<and> list_all isHex v) \<or> length v = 12)"

definition hexDigit :: "nat \<Rightarrow> char" where
  "hexDigit n = (if n < 10 then char_of (48 + n) else char_of (87 + n))"

definition hexByte :: "char \<Rightarrow> string" where
  "hexByte c = [hexDigit ((of_char c :: nat) div 16), hexDigit ((of_char c :: nat) mod 16)]"

definition ObjectId :: "string \<Rightarrow> objectId" where
  "ObjectId v = (if length v = 24 \<and> list_all isHex v then toLowerCase v else concat (map hexByte v))"

subsection \<open>Data model\<close>

text \<open>
  The model files (\<^verbatim>\<open>models/video.model.js\<close>, the user model) are not among the sources.
  The fields are the ones the controller writes in \<^verbatim>\<open>Video.create\<close> and
  \<^verbatim>\<open>findByIdAndUpdate\<close>, filters and sorts on, and projects from the owner; they are the
  Record and OwnerStub of the specification. The media asset, the field \<^verbatim>\<open>video\<close> of a
  stored record, is \<open>videoFile\<close> here; \<^verbatim>\<open>_id\<close> is \<open>video_id\<close> and \<open>user_id\<close>.
\<close>

record asset =
  url :: string
  public_id :: string

record video =
  video_id :: objectId
  title :: string
  description :: string
  videoFile :: asset
  thumbnail :: asset
  tags :: "string list"
  duration :: string
  owner :: objectId
  isPublished :: bool
  createdAt :: int

record user =
  user_id :: objectId
  username :: string
  fullName :: string
  email :: string
  avatar :: string
  coverImage :: string

text \<open>
  The owner as a response shows it: the projection of \<^verbatim>\<open>$lookup\<close> in \<^verbatim>\<open>getAllVideos\<close>
  keeps \<^verbatim>\<open>coverImage\<close>, the \<^verbatim>\<open>select\<close> of \<^verbatim>\<open>populate\<close> does not.
\<close>

record ownerStub =
  stub_id :: objectId
  stub_username :: string
  stub_fullName :: string
  stub_email :: string
  stub_avatar :: string
  stub_coverImage :: "string option"

text \<open>
  A record with its owner reference resolved: in the response the field \<^verbatim>\<open>owner\<close> holds
  \<open>resolvedOwner\<close> (\<open>None\<close>: no account has that identifier), not the reference.
\<close>

record videoDoc =
  doc :: video
  resolvedOwner :: "ownerStub option"

record pageResult =
  videos :: "videoDoc list"
  totalVideos :: nat
  totalPages :: nat
  currentPage :: int
  hasNextPage :: bool
  hasPrevPage :: bool

text \<open>The \<^verbatim>\<open>data\<close> of a response: one constructor for each shape the handlers send.\<close>

datatype payload =
    PageData pageResult
  | PopulatedVideo videoDoc
  | RelatedVideos "videoDoc list"
  | StoredVideo video
  | EmptyObject
  | Text string

text \<open>
  \<^verbatim>\<open>new ApiResponse(statusCode, data, message)\<close>, the envelope of every response. The class
  is not among the sources; \<open>defaultMessage\<close> stands for the message it gives when the third
  argument is left out (\<^verbatim>\<open>updateAllVideo\<close>).
\<close>

record apiResponse =
  statusCode :: nat
  data :: payload
  message :: string

definition ApiResponse :: "nat \<Rightarrow> payload \<Rightarrow> string \<Rightarrow> apiResponse" where
  "ApiResponse c d m = \<lparr>statusCode = c, data = d, message = m\<rparr>"

definition defaultMessage :: string where
  "defaultMessage = ''Success''"

text \<open>\<^verbatim>\<open>res.status(c).json(body)\<close>: the HTTP status and the body.\<close>

type_synonym reply = "nat \<times> apiResponse"

text \<open>
  Every way a handler fails. \<open>ApiError\<close> is the source's \<^verbatim>\<open>throw new ApiError(status, message)\<close>;
  \<open>TypeError\<close> is JavaScript reading \<^verbatim>\<open>.length\<close> of \<^verbatim>\<open>undefined\<close>; \<open>CastError\<close>,
  \<open>ValidationError\<close> and \<open>StoreError\<close> are raised by the record store.
\<close>

datatype error =
    ApiError nat string
  | TypeError
  | CastError
  | ValidationError
  | StoreError

subsection \<open>Requests\<close>

text \<open>
  \<^verbatim>\<open>req.query\<close> is the list of name/value pairs in the order of the URL (an object with
  insertion order); \<^verbatim>\<open>req.params.id\<close>, the body fields and the paths of the attached files
  are \<open>None\<close> where JavaScript has \<^verbatim>\<open>undefined\<close>.
\<close>

record body =
  body_title :: "string option"
  body_description :: "string option"
  body_tags :: "string list option"
  body_isPublished :: "bool option"

record request =
  query :: "(string \<times> string) list"
  params_id :: string
  reqBody :: body
  file_path :: "string option"
  files_videoFile :: "string option"
  files_thumbnail :: "string option"
  user :: objectId

text \<open>Destructuring with a default: the default is taken only for \<^verbatim>\<open>undefined\<close>.\<close>

definition withDefault :: "string \<Rightarrow> string option \<Rightarrow> string" where
  "withDefault d v = (case v of None \<Rightarrow> d | Some x \<Rightarrow> x)"

subsection \<open>State, effects and the collaborators outside the repository\<close>

datatype event =
    RecordQuery string
  | RecordWrite string
  | CacheGet string
  | CacheSet string
  | CacheDelete string
  | CacheDeleteGroup string
  | Upload "string option"

record state =
  videoStore :: "video list"
  userStore :: "user list"
  cache :: "string \<rightharpoonup> apiResponse"
  trace :: "event list"

definition logEvent :: "event \<Rightarrow> state \<Rightarrow> state" where
  "logEvent ev s = s\<lparr>trace := trace s @ [ev]\<rparr>"

definition isRecordEvent :: "event \<Rightarrow> bool" where
  "isRecordEvent ev = (case ev of RecordQuery _ \<Rightarrow> True | RecordWrite _ \<Rightarrow> True | _ \<Rightarrow> False)"

definition isInvalidation :: "event \<Rightarrow> bool" where
  "isInvalidation ev = (case ev of CacheDelete _ \<Rightarrow> True | CacheDeleteGroup _ \<Rightarrow> True | _ \<Rightarrow> False)"

record cloudinaryResponse =
  secure_url :: string
  response_public_id :: string
  response_duration :: nat

text \<open>
  What the handlers take from outside and this theory leaves open:
  \<^item> \<open>objectStorage\<close>: the answer of the object storage for a local path (\<open>None\<close>: the upload
    failed);
  \<^item> \<open>formatDuration\<close>: \<^verbatim>\<open>utils/formatDuration.js\<close>, not among the sources;
  \<^item> \<open>regexEngine\<close>: the record store's regular expressions, for the patterns that
    \<open>regexMatcher\<close> below does not interpret itself (\<open>None\<close>: the pattern is rejected);
  \<^item> \<open>newId\<close>, \<open>now\<close>, \<open>publishedDefault\<close>: the identifier, the time stamp and the publication
    flag the store gives a new record (the schema's default; the schema is not among the
    sources).
\<close>

record environment =
  objectStorage :: "string \<Rightarrow> cloudinaryResponse option"
  formatDuration :: "nat \<Rightarrow> string"
  regexEngine :: "string \<Rightarrow> (string \<Rightarrow> bool) option"
  newId :: objectId
  now :: int
  publishedDefault :: bool

subsection \<open>The cache utilities\<close>

text \<open>
  \<^verbatim>\<open>utils/redis.util.js\<close> (\<^verbatim>\<open>generateCacheKey\<close>, \<^verbatim>\<open>checkCache\<close>, \<^verbatim>\<open>setCache\<close>,
  \<^verbatim>\<open>revalidateCache\<close>, \<^verbatim>\<open>revalidateRelatedCaches\<close>) is not among the sources. The five
  definitions of this subsection follow the specification; the controller's calls to them
  are embedded from the source. Expiry of an entry and an unreachable cache store are
  outside the model: an entry stays until it is deleted, and every operation succeeds.
\<close>

text \<open>
  Modelled from the spec: the parameters a listing handler defaults. \<^verbatim>\<open>generateCacheKey\<close>
  is missing; section 4.1 omits a parameter that has its default value, and these are the
  defaults of \<^verbatim>\<open>getAllVideos\<close> (lines 19 to 24).
\<close>

definition defaultParams :: "(string \<times> string) list" where
  "defaultParams =
     [(''page'', ''1''), (''limit'', ''10''), (''sortBy'', ''createdAt''), (''sortType'', ''desc'')]"

definition isDefaultParam :: "string \<times> string \<Rightarrow> bool" where
  "isDefaultParam nv = (map_of defaultParams (fst nv) = Some (snd nv))"

definition serializeParam :: "string \<times> string \<Rightarrow> string" where
  "serializeParam nv = fst nv @ ''='' @ snd nv"

text \<open>The second argument of \<^verbatim>\<open>generateCacheKey\<close>: a parameter mapping or an identifier.\<close>

datatype keyParams = Params "(string \<times> string) list" | Ident string

text \<open>
  Modelled from the spec: \<^verbatim>\<open>generateCacheKey\<close> is missing. Section 4.1: the parameter
  names are sorted lexicographically, \<open>name=value\<close> pairs are joined with a fixed delimiter
  and prefixed with the kind (\<open>kind:sortedParams\<close>); a parameter with its default value is
  omitted; a single-entity key is \<open>kind:id\<close>.
\<close>

definition generateCacheKey :: "string \<Rightarrow> keyParams \<Rightarrow> string" where
  "generateCacheKey kind ps =
     (case ps of
        Ident i \<Rightarrow> kind @ '':'' @ i
      | Params m \<Rightarrow>
          kind @ '':'' @
          joinWith ''&'' (map serializeParam (sort_key fst (filter (\<lambda>nv. \<not> isDefaultParam nv) m))))"

text \<open>
  Modelled from the spec: \<^verbatim>\<open>checkCache\<close> is missing. Section 4.2, \<open>get(key)\<close>: the stored
  entry or a miss.
\<close>

definition checkCache :: "string \<Rightarrow> state \<Rightarrow> apiResponse option \<times> state" where
  "checkCache key s = (cache s key, logEvent (CacheGet key) s)"

text \<open>
  Modelled from the spec: \<^verbatim>\<open>setCache\<close> is missing. Section 4.2, \<open>set(key, entry, ttl)\<close>: the
  entry is stored under the key, replacing what was there.
\<close>

definition setCache :: "apiResponse \<Rightarrow> string \<Rightarrow> state \<Rightarrow> state" where
  "setCache response key s = logEvent (CacheSet key) (s\<lparr>cache := (cache s)(key \<mapsto> response)\<rparr>)"

text \<open>
  Modelled from the spec: \<^verbatim>\<open>revalidateCache\<close> is missing. Section 4.5, \<open>invalidate\<close>: deletes
  the one key; deleting an absent key changes nothing.
\<close>

definition revalidateCache :: "string \<Rightarrow> state \<Rightarrow> state" where
  "revalidateCache key s = logEvent (CacheDelete key) (s\<lparr>cache := (cache s)(key := None)\<rparr>)"

text \<open>
  Modelled from the spec: \<^verbatim>\<open>revalidateRelatedCaches\<close> is missing. Section 4.5,
  \<open>invalidateGroup(tag)\<close>: deletes every key of the group; a key belongs to the group of the
  kind it is prefixed with (sections 4.2 and 9: the source couples tag and key by the key
  prefix).
\<close>

definition revalidateRelatedCaches :: "string \<Rightarrow> state \<Rightarrow> state" where
  "revalidateRelatedCaches tag s =
     logEvent (CacheDeleteGroup tag)
       (s\<lparr>cache := (\<lambda>key. if prefix tag key then None else cache s key)\<rparr>)"

subsection \<open>The record store\<close>

text \<open>
  The document store and its query language are outside the repository. This subsection
  gives the operations the controller calls the meaning the specification (sections 4.4
  and 6) and the store's documentation give them, on the list of stored records.
\<close>

text \<open>
  The filter object \<^verbatim>\<open>searchQuery\<close> of \<^verbatim>\<open>getAllVideos\<close>: \<^verbatim>\<open>isPublished\<close>, the optional
  \<^verbatim>\<open>$or\<close> of three clauses, the optional \<^verbatim>\<open>owner\<close>.
\<close>

datatype clause =
    TitleRegex string
  | DescriptionRegex string
  | TagsIn "string list"

record searchQuery =
  sq_isPublished :: bool
  sq_or :: "clause list option"
  sq_owner :: "objectId option"

text \<open>
  \<^verbatim>\<open>{ $regex: q, $options: "i" }\<close>: \<open>q\<close> is a regular expression, searched for anywhere in the
  field, letters compared without case. A pattern without operator characters, or whose
  only operator is the dot (any character but a line feed), is interpreted here; any other
  pattern is left to \<open>regexEngine\<close>.
\<close>

definition regexOperators :: string where
  "regexOperators = CHR 0x5C # ''^$.|?*+()[]{}''"

definition isLiteralPattern :: "string \<Rightarrow> bool" where
  "isLiteralPattern p = list_all (\<lambda>c. c \<notin> set regexOperators) p"

definition isSimplePattern :: "string \<Rightarrow> bool" where
  "isSimplePattern p = list_all (\<lambda>c. c = CHR ''.'' \<or> c \<notin> set regexOperators) p"

definition patternCharMatches :: "char \<Rightarrow> char \<Rightarrow> bool" where
  "patternCharMatches p c = (if p = CHR ''.'' then c \<noteq> CHR 0x0A else lowerChar p = lowerChar c)"

fun matchHere :: "string \<Rightarrow> string \<Rightarrow> bool" where
  "matchHere [] s = True"
| "matchHere (p # ps) [] = False"
| "matchHere (p # ps) (c # cs) = (patternCharMatches p c \<and> matchHere ps cs)"

fun searchPattern :: "string \<Rightarrow> string \<Rightarrow> bool" where
  "searchPattern p [] = matchHere p []"
| "searchPattern p (c # cs) = (matchHere p (c # cs) \<or> searchPattern p cs)"

definition regexMatcher :: "environment \<Rightarrow> string \<Rightarrow> (string \<Rightarrow> bool) option" where
  "regexMatcher e p = (if isSimplePattern p then Some (searchPattern p) else regexEngine e p)"

text \<open>
  A clause of \<^verbatim>\<open>$or\<close> as a predicate on records; \<open>None\<close> when the store rejects its pattern.
  \<^verbatim>\<open>{ tags: { $in: ts } }\<close> holds when some tag of the record is one of \<open>ts\<close>.
\<close>

definition compileClause :: "environment \<Rightarrow> clause \<Rightarrow> (video \<Rightarrow> bool) option" where
  "compileClause e c =
     (case c of
        TitleRegex p \<Rightarrow> map_option (\<lambda>m v. m (title v)) (regexMatcher e p)
      | DescriptionRegex p \<Rightarrow> map_option (\<lambda>m v. m (description v)) (regexMatcher e p)
      | TagsIn ts \<Rightarrow> Some (\<lambda>v. list_ex (\<lambda>t. t \<in> set ts) (tags v)))"

fun compileClauses :: "environment \<Rightarrow> clause list \<Rightarrow> (video \<Rightarrow> bool) list option" where
  "compileClauses e [] = Some []"
| "compileClauses e (c # cs) =
     (case compileClause e c of
        None \<Rightarrow> None
      | Some m \<Rightarrow> (case compileClauses e cs of None \<Rightarrow> None | Some ms \<Rightarrow> Some (m # ms)))"

text \<open>The stage \<^verbatim>\<open>$match\<close>: every field of the filter object must hold.\<close>

definition compileSearchQuery :: "environment \<Rightarrow> searchQuery \<Rightarrow> (video \<Rightarrow> bool) option" where
  "compileSearchQuery e sq =
     (case (case sq_or sq of None \<Rightarrow> Some None | Some cs \<Rightarrow> map_option Some (compileClauses e cs)) of
        None \<Rightarrow> None
      | Some orPart \<Rightarrow>
          Some (\<lambda>v. isPublished v = sq_isPublished sq
                  \<and> (case orPart of None \<Rightarrow> True | Some ms \<Rightarrow> list_ex (\<lambda>m. m v) ms)
                  \<and> (case sq_owner sq of None \<Rightarrow> True | Some oid \<Rightarrow> owner v = oid)))"

text \<open>
  The stage \<^verbatim>\<open>$sort\<close> on one field, \<open>-1\<close> descending. The key of a record is the position
  of the field's type in the store's order of types (missing and null 1, text 3, embedded
  object 4, identifier 7, boolean 8, date 9; an empty array 0), then its value. An array
  sorts by its least element ascending and by its greatest descending. A field the records
  do not have is missing in each of them. Records with equal keys keep their stored order
  (reversed when descending): the store promises no order among them.
\<close>

definition sortKey :: "string \<Rightarrow> int \<Rightarrow> video \<Rightarrow> nat \<times> int \<times> string \<times> string" where
  "sortKey field dir v =
     (if field = ''_id'' then (7, 0, video_id v, [])
      else if field = ''title'' then (3, 0, title v, [])
      else if field = ''description'' then (3, 0, description v, [])
      else if field = ''video'' then (4, 0, url (videoFile v), public_id (videoFile v))
      else if field = ''video.url'' then (3, 0, url (videoFile v), [])
      else if field = ''video.public_id'' then (3, 0, public_id (videoFile v), [])
      else if field = ''thumbnail'' then (4, 0, url (thumbnail v), public_id (thumbnail v))
      else if field = ''thumbnail.url'' then (3, 0, url (thumbnail v), [])
      else if field = ''thumbnail.public_id'' then (3, 0, public_id (thumbnail v), [])
      else if field = ''tags'' then
        (case tags v of
           [] \<Rightarrow> (0, 0, [], [])
         | t # ts \<Rightarrow> (3, 0, if dir < 0 then fold max ts t else fold min ts t, []))
      else if field = ''duration'' then (3, 0, duration v, [])
      else if field = ''owner'' then (7, 0, owner v, [])
      else if field = ''isPublished'' then (8, if isPublished v then 1 else 0, [], [])
      else if field = ''createdAt'' then (9, createdAt v, [], [])
      else (1, 0, [], []))"

definition sortStage :: "string \<times> int \<Rightarrow> video list \<Rightarrow> video list" where
  "sortStage sq vs =
     (if snd sq < 0 then rev (sort_key (sortKey (fst sq) (snd sq)) vs)
      else sort_key (sortKey (fst sq) (snd sq)) vs)"

text \<open>
  Resolving the owner reference: \<^verbatim>\<open>$lookup\<close> from \<^verbatim>\<open>users\<close> with its \<^verbatim>\<open>$project\<close>,
  followed by \<^verbatim>\<open>$set\<close> of \<^verbatim>\<open>$first\<close> (\<open>withCover = True\<close>), and \<^verbatim>\<open>populate\<close> with
  \<^verbatim>\<open>select: "_id username fullName email avatar"\<close> (\<open>withCover = False\<close>).
\<close>

definition projectOwner :: "bool \<Rightarrow> user \<Rightarrow> ownerStub" where
  "projectOwner withCover u =
     \<lparr>stub_id = user_id u, stub_username = username u, stub_fullName = fullName u,
      stub_email = email u, stub_avatar = avatar u,
      stub_coverImage = (if withCover then Some (coverImage u) else None)\<rparr>"

definition resolveOwner :: "user list \<Rightarrow> bool \<Rightarrow> video \<Rightarrow> videoDoc" where
  "resolveOwner us withCover v =
     \<lparr>doc = v,
      resolvedOwner = map_option (projectOwner withCover) (find (\<lambda>u. user_id u = owner v) us)\<rparr>"

text \<open>The aggregation of \<^verbatim>\<open>getAllVideos\<close>: the filter and the sort; the join is fixed.\<close>

record aggregateQuery =
  matchStage :: searchQuery
  sortQuery :: "string \<times> int"

text \<open>What the controller reads from the result of \<^verbatim>\<open>aggregatePaginate\<close>.\<close>

record paginateResult =
  docs :: "videoDoc list"
  totalDocs :: nat
  result_totalPages :: nat
  page :: int
  result_hasNextPage :: bool
  result_hasPrevPage :: bool

text \<open>
  Modelled from the spec: \<^verbatim>\<open>Video.aggregatePaginate\<close>, the pagination plug-in of the model,
  is not among the sources. Section 4.4, steps 4 and 5: the filtered, sorted and joined
  records are counted before pagination; the page skips \<open>(page - 1) * limit\<close> of them and
  takes \<open>limit\<close>; the number of pages, has-next and has-previous are derived from the count.
  A page that is not a number or is \<open>0\<close> is page 1, a limit that is not a positive number is
  10 (the defaults of the controller); a negative page gives a negative skip, which the
  store refuses, as it refuses a pattern it cannot read.
\<close>

text \<open>
  The result set of the aggregation before pagination: the stages \<^verbatim>\<open>$match\<close>, \<^verbatim>\<open>$sort\<close>,
  \<^verbatim>\<open>$lookup\<close> and \<^verbatim>\<open>$set\<close> in the order of lines 69 to 101.
\<close>

definition matchedRecords ::
  "user list \<Rightarrow> string \<times> int \<Rightarrow> (video \<Rightarrow> bool) \<Rightarrow> video list \<Rightarrow> videoDoc list" where
  "matchedRecords us sq matches vs = map (resolveOwner us True) (sortStage sq (filter matches vs))"

definition effectivePage :: "int option \<Rightarrow> int" where
  "effectivePage p = (case p of None \<Rightarrow> 1 | Some n \<Rightarrow> if n = 0 then 1 else n)"

definition effectiveLimit :: "int option \<Rightarrow> nat" where
  "effectiveLimit l = (case l of None \<Rightarrow> 10 | Some n \<Rightarrow> if 0 < n then nat n else 10)"

definition pageCount :: "nat \<Rightarrow> nat \<Rightarrow> nat" where
  "pageCount matchedCount limit = max 1 ((matchedCount + limit - 1) div limit)"

definition aggregatePaginate ::
  "environment \<Rightarrow> aggregateQuery \<Rightarrow> int option \<times> int option \<Rightarrow> state
    \<Rightarrow> (error + paginateResult) \<times> state" where
  "aggregatePaginate e aq options s =
     (let s1 = logEvent (RecordQuery ''aggregatePaginate'') s;
          pageNo = effectivePage (fst options);
          limit = effectiveLimit (snd options);
          skip = (pageNo - 1) * int limit
      in case compileSearchQuery e (matchStage aq) of
           None \<Rightarrow> (Inl StoreError, s1)
         | Some matches \<Rightarrow>
             if skip < 0 then (Inl StoreError, s1)
             else
               let matched = matchedRecords (userStore s1) (sortQuery aq) matches (videoStore s1);
                   matchedCount = length matched;
                   pages = pageCount matchedCount limit
               in (Inr \<lparr>docs = take limit (drop (nat skip) matched),
                         totalDocs = matchedCount,
                         result_totalPages = pages,
                         page = pageNo,
                         result_hasNextPage = (pageNo < int pages),
                         result_hasPrevPage = (1 < pageNo)\<rparr>, s1))"

text \<open>
  The operations by identifier. The identifier of the route is cast first; a text that is
  no identifier is a \<open>CastError\<close>. \<open>updateFirst\<close> and \<open>deleteFirst\<close> touch the one record
  found.
\<close>

fun updateFirst :: "('a \<Rightarrow> bool) \<Rightarrow> ('a \<Rightarrow> 'a) \<Rightarrow> 'a list \<Rightarrow> 'a list" where
  "updateFirst P f [] = []"
| "updateFirst P f (x # xs) = (if P x then f x # xs else x # updateFirst P f xs)"

fun deleteFirst :: "('a \<Rightarrow> bool) \<Rightarrow> 'a list \<Rightarrow> 'a list" where
  "deleteFirst P [] = []"
| "deleteFirst P (x # xs) = (if P x then xs else x # deleteFirst P xs)"

definition findById :: "string \<Rightarrow> state \<Rightarrow> (error + video option) \<times> state" where
  "findById i s =
     (let s1 = logEvent (RecordQuery ''findById'') s
      in if \<not> isValidObjectId i then (Inl CastError, s1)
         else (Inr (find (\<lambda>v. video_id v = ObjectId i) (videoStore s1)), s1))"

text \<open>\<^verbatim>\<open>findByIdAndUpdate(id, { $set: ... }, { new: true })\<close>: the record after the update.\<close>

definition findByIdAndUpdate ::
  "string \<Rightarrow> (video \<Rightarrow> video) \<Rightarrow> state \<Rightarrow> (error + video option) \<times> state" where
  "findByIdAndUpdate i upd s =
     (let s1 = logEvent (RecordWrite ''findByIdAndUpdate'') s
      in if \<not> isValidObjectId i then (Inl CastError, s1)
         else (case find (\<lambda>v. video_id v = ObjectId i) (videoStore s1) of
                 None \<Rightarrow> (Inr None, s1)
               | Some v \<Rightarrow>
                   (Inr (Some (upd v)),
                    s1\<lparr>videoStore := updateFirst (\<lambda>v. video_id v = ObjectId i) upd (videoStore s1)\<rparr>)))"

text \<open>\<^verbatim>\<open>findByIdAndDelete(id)\<close>: the record that was deleted.\<close>

definition findByIdAndDelete :: "string \<Rightarrow> state \<Rightarrow> (error + video option) \<times> state" where
  "findByIdAndDelete i s =
     (let s1 = logEvent (RecordWrite ''findByIdAndDelete'') s
      in if \<not> isValidObjectId i then (Inl CastError, s1)
         else (case find (\<lambda>v. video_id v = ObjectId i) (videoStore s1) of
                 None \<Rightarrow> (Inr None, s1)
               | Some v \<Rightarrow>
                   (Inr (Some v),
                    s1\<lparr>videoStore := deleteFirst (\<lambda>v. video_id v = ObjectId i) (videoStore s1)\<rparr>)))"

text \<open>\<^verbatim>\<open>updateMany({}, { $set: ... })\<close>: \<^verbatim>\<open>modifiedCount\<close>, the number of records it changed.\<close>

definition updateMany :: "(video \<Rightarrow> video) \<Rightarrow> state \<Rightarrow> nat \<times> state" where
  "updateMany upd s =
     (let s1 = logEvent (RecordWrite ''updateMany'') s
      in (length (filter (\<lambda>v. upd v \<noteq> v) (videoStore s1)),
          s1\<lparr>videoStore := map upd (videoStore s1)\<rparr>))"

text \<open>
  \<^verbatim>\<open>Video.create\<close>: the new record is appended. A Record has a title and a description
  (section 3 of the specification): without one of them the store refuses the record.
\<close>

definition create ::
  "environment \<Rightarrow> string option \<Rightarrow> string option \<Rightarrow> asset \<Rightarrow> asset \<Rightarrow> string list \<Rightarrow> string
    \<Rightarrow> objectId \<Rightarrow> state \<Rightarrow> (error + video) \<times> state" where
  "create e t d vf th ts dur own s =
     (let s1 = logEvent (RecordWrite ''create'') s
      in case (t, d) of
           (Some t', Some d') \<Rightarrow>
             (let v = \<lparr>video_id = newId e, title = t', description = d', videoFile = vf,
                       thumbnail = th, tags = ts, duration = dur, owner = own,
                       isPublished = publishedDefault e, createdAt = now e\<rparr>
              in (Inr v, s1\<lparr>videoStore := videoStore s1 @ [v]\<rparr>))
         | _ \<Rightarrow> (Inl ValidationError, s1))"

text \<open>
  \<^verbatim>\<open>Video.find({ _id: { $ne: videoId }, tags: { $in: tags } }).populate(...)\<close> of
  \<^verbatim>\<open>getRelatedVideos\<close>.
\<close>

definition findRelated :: "string \<Rightarrow> string list \<Rightarrow> state \<Rightarrow> videoDoc list \<times> state" where
  "findRelated i ts s =
     (let s1 = logEvent (RecordQuery ''find'') s
      in (map (resolveOwner (userStore s1) False)
            (filter (\<lambda>v. video_id v \<noteq> ObjectId i \<and> list_ex (\<lambda>t. t \<in> set ts) (tags v))
               (videoStore s1)), s1))"

subsection \<open>The object storage\<close>

text \<open>
  Modelled from the spec: \<^verbatim>\<open>uploadOnCloudinary\<close> (\<^verbatim>\<open>utils/cloudinary.js\<close>) is missing.
  Section 6: it accepts a local file path and returns the stored asset; a failure is an
  answer without identifier. Without a path there is nothing to upload and no answer.
\<close>

definition uploadOnCloudinary ::
  "environment \<Rightarrow> string option \<Rightarrow> state \<Rightarrow> cloudinaryResponse option \<times> state" where
  "uploadOnCloudinary e localFilePath s =
     ((case localFilePath of None \<Rightarrow> None | Some p \<Rightarrow> objectStorage e p),
      logEvent (Upload localFilePath) s)"

text \<open>The asset reference a record keeps of an upload: \<^verbatim>\<open>{ url: r.secure_url, public_id: r.public_id }\<close>.\<close>

definition assetOf :: "cloudinaryResponse \<Rightarrow> asset" where
  "assetOf r = \<lparr>url = secure_url r, public_id = response_public_id r\<rparr>"

subsection \<open>The handlers\<close>

text \<open>
  \<^verbatim>\<open>asyncHandler\<close> passes a thrown error on; the handler's result is then \<open>Inl\<close> of the
  error, and the state is the one reached when it was thrown.
\<close>

text \<open>
  \<^verbatim>\<open>getAllVideos\<close>, lines 17 to 127. The pieces it computes from \<^verbatim>\<open>req.query\<close> come
  first, each under the lines it embeds; a parameter that is missing takes the default of
  the destructuring in lines 19 to 26.
\<close>

text \<open>Lines 31 to 38: the filter before the owner is looked at. \<^verbatim>\<open>if (q)\<close> holds for a non-empty text.\<close>

definition textSearchQuery :: "string option \<Rightarrow> searchQuery" where
  "textSearchQuery q =
     (case q of
        None \<Rightarrow> \<lparr>sq_isPublished = True, sq_or = None, sq_owner = None\<rparr>
      | Some qs \<Rightarrow>
          if qs = [] then \<lparr>sq_isPublished = True, sq_or = None, sq_owner = None\<rparr>
          else \<lparr>sq_isPublished = True,
                sq_or = Some [TitleRegex qs, DescriptionRegex qs,
                              TagsIn (map toLowerCase (splitSpace qs))],
                sq_owner = None\<rparr>)"

text \<open>Lines 40 to 46: \<^verbatim>\<open>if (userId)\<close> holds for a non-empty text.\<close>

definition ownerSearchQuery :: "string option \<Rightarrow> searchQuery \<Rightarrow> error + searchQuery" where
  "ownerSearchQuery userId sq =
     (case userId of
        None \<Rightarrow> Inr sq
      | Some u \<Rightarrow>
          if u = [] then Inr sq
          else if \<not> isValidObjectId u then Inl (ApiError 400 ''Invalid User Id'')
          else Inr (sq\<lparr>sq_owner := Some (ObjectId u)\<rparr>))"

text \<open>Lines 31 to 46 on the request: the filter, or the error of line 42.\<close>

definition listingSearchQuery :: "request \<Rightarrow> error + searchQuery" where
  "listingSearchQuery req =
     ownerSearchQuery (map_of (query req) ''userId'') (textSearchQuery (map_of (query req) ''q''))"

text \<open>Lines 48 to 53.\<close>

definition sortQueryOf :: "string \<Rightarrow> string \<Rightarrow> string \<times> int" where
  "sortQueryOf sortBy sortType =
     (if sortBy \<noteq> [] then (sortBy, if sortType = ''desc'' then - 1 else 1)
      else (''createdAt'', - 1))"

definition listingSortQuery :: "request \<Rightarrow> string \<times> int" where
  "listingSortQuery req =
     sortQueryOf (withDefault ''createdAt'' (map_of (query req) ''sortBy''))
       (withDefault ''desc'' (map_of (query req) ''sortType''))"

text \<open>Lines 105 to 108: \<^verbatim>\<open>options\<close>.\<close>

definition listingOptions :: "request \<Rightarrow> int option \<times> int option" where
  "listingOptions req =
     (parseInt (withDefault ''1'' (map_of (query req) ''page'')),
      parseInt (withDefault ''10'' (map_of (query req) ''limit'')))"

text \<open>Lines 112 to 123: the response object.\<close>

definition listingResponse :: "paginateResult \<Rightarrow> apiResponse" where
  "listingResponse r =
     ApiResponse 200
       (PageData \<lparr>videos = docs r, totalVideos = totalDocs r,
                  totalPages = result_totalPages r, currentPage = page r,
                  hasNextPage = result_hasNextPage r, hasPrevPage = result_hasPrevPage r\<rparr>)
       ''Videos found''"

definition getAllVideos :: "environment \<Rightarrow> request \<Rightarrow> state \<Rightarrow> (error + reply) \<times> state" where
  "getAllVideos e req s =
     (case listingSearchQuery req of
        Inl err \<Rightarrow> (Inl err, s)
      | Inr searchQuery \<Rightarrow>
          (let cacheKey = generateCacheKey ''all-videos'' (Params (query req));
               (cachedRes, s1) = checkCache cacheKey s
           in (case cachedRes of
                 Some r \<Rightarrow> (Inr (200, r), s1)
               | None \<Rightarrow>
                   (let aq = \<lparr>matchStage = searchQuery, sortQuery = listingSortQuery req\<rparr>;
                        (result, s2) = aggregatePaginate e aq (listingOptions req) s1
                    in (case result of
                          Inl err \<Rightarrow> (Inl err, s2)
                        | Inr r \<Rightarrow>
                            (let response = listingResponse r;
                                 s3 = setCache response cacheKey s2
                             in (Inr (200, response), s3)))))))"

text \<open>Line 135 awaits \<^verbatim>\<open>checkCache\<close> and drops what it returns.\<close>

definition getVideoById :: "environment \<Rightarrow> request \<Rightarrow> state \<Rightarrow> (error + reply) \<times> state" where
  "getVideoById e req s =
     (let videoId = params_id req;
          cacheKey = generateCacheKey ''video'' (Ident videoId);
          (cachedRes, s1) = checkCache cacheKey s;
          (found, s2) = findById videoId s1
      in (case found of
            Inl err \<Rightarrow> (Inl err, s2)
          | Inr None \<Rightarrow> (Inl (ApiError 404 ''Video not found''), s2)
          | Inr (Some v) \<Rightarrow>
              (let response =
                     ApiResponse 200 (PopulatedVideo (resolveOwner (userStore s2) False v))
                       ''Video found'';
                   s3 = setCache response cacheKey s2
               in (Inr (200, response), s3))))"

text \<open>\<^verbatim>\<open>value?.trim() === ""\<close>: the value is a text and trims to the empty text.\<close>

definition trimsToEmpty :: "string option \<Rightarrow> bool" where
  "trimsToEmpty v = (case v of None \<Rightarrow> False | Some x \<Rightarrow> trim x = [])"

text \<open>In \<^verbatim>\<open>$set\<close> a field whose new value is \<^verbatim>\<open>undefined\<close> is left as it is.\<close>

definition setField :: "'a option \<Rightarrow> 'a \<Rightarrow> 'a" where
  "setField new old = (case new of None \<Rightarrow> old | Some x \<Rightarrow> x)"

definition updateVideoById :: "environment \<Rightarrow> request \<Rightarrow> state \<Rightarrow> (error + reply) \<times> state" where
  "updateVideoById e req s =
     (let t = body_title (reqBody req);
          d = body_description (reqBody req);
          thumbnailLocalPath = file_path req
      in if list_all trimsToEmpty [t, d, thumbnailLocalPath]
         then (Inl (ApiError 400 ''Please provide All required fields''), s)
         else
           (let (uploaded, s1) = uploadOnCloudinary e thumbnailLocalPath s
            in (case uploaded of
                  None \<Rightarrow> (Inl (ApiError 500 ''Failed to update thumbnail''), s1)
                | Some th \<Rightarrow>
                    if response_public_id th = []
                    then (Inl (ApiError 500 ''Failed to update thumbnail''), s1)
                    else
                      (let (found, s2) =
                             findByIdAndUpdate (params_id req)
                               (\<lambda>v. v\<lparr>title := setField t (title v),
                                      description := setField d (description v),
                                      thumbnail := assetOf th\<rparr>) s1
                       in (case found of
                             Inl err \<Rightarrow> (Inl err, s2)
                           | Inr None \<Rightarrow> (Inl (ApiError 500 ''Failed to update video''), s2)
                           | Inr (Some v) \<Rightarrow>
                               (let cacheKey = generateCacheKey ''video'' (Ident (params_id req));
                                    s3 = revalidateCache cacheKey s2;
                                    s4 = revalidateRelatedCaches ''all-videos'' s3
                                in (Inr (200, ApiResponse 200 (StoredVideo v) ''Video updated''),
                                    s4)))))))"

text \<open>
  Lines 196 to 199: \<^verbatim>\<open>||\<close> reads \<^verbatim>\<open>tags.length\<close> only when the first test fails, and
  \<^verbatim>\<open>tags.length\<close> of a missing \<^verbatim>\<open>tags\<close> is a \<open>TypeError\<close>.
\<close>

definition updateAllVideo :: "environment \<Rightarrow> request \<Rightarrow> state \<Rightarrow> (error + reply) \<times> state" where
  "updateAllVideo e req s =
     (let t = body_title (reqBody req);
          d = body_description (reqBody req)
      in if list_all trimsToEmpty [t, d]
         then (Inl (ApiError 400 ''Please provide All required fields''), s)
         else
           (case body_tags (reqBody req) of
              None \<Rightarrow> (Inl TypeError, s)
            | Some ts \<Rightarrow>
                if length ts = 0
                then (Inl (ApiError 400 ''Please provide All required fields''), s)
                else
                  (let (modifiedCount, s1) =
                         updateMany
                           (\<lambda>v. v\<lparr>title := setField t (title v),
                                  description := setField d (description v),
                                  tags := ts\<rparr>) s
                   in if modifiedCount = 0
                      then (Inl (ApiError 500 ''Failed to update videos''), s1)
                      else
                        (let s2 = revalidateRelatedCaches ''all-videos'' s1
                         in (Inr (200, ApiResponse 200 (Text ''All Videos Updated'')
                                         defaultMessage), s2)))))"

text \<open>\<^verbatim>\<open>!path\<close>: the path is missing or empty.\<close>

definition noPath :: "string option \<Rightarrow> bool" where
  "noPath v = (case v of None \<Rightarrow> True | Some x \<Rightarrow> x = [])"

definition publishVideo :: "environment \<Rightarrow> request \<Rightarrow> state \<Rightarrow> (error + reply) \<times> state" where
  "publishVideo e req s =
     (let t = body_title (reqBody req);
          d = body_description (reqBody req);
          videoLocalPath = files_videoFile req;
          thumbnailLocalPath = files_thumbnail req
      in if noPath videoLocalPath \<or> noPath thumbnailLocalPath
         then (Inl (ApiError 400 ''Thumbnail and Video Files are required''), s)
         else if list_ex trimsToEmpty [t, d]
         then (Inl (ApiError 400 ''Please provide All required fields''), s)
         else
           (case body_tags (reqBody req) of
              None \<Rightarrow> (Inl TypeError, s)
            | Some ts \<Rightarrow>
                if length ts = 0
                then (Inl (ApiError 400 ''Please provide All required fields''), s)
                else
                  (let (uploadedVideo, s1) = uploadOnCloudinary e videoLocalPath s;
                       (uploadedThumbnail, s2) = uploadOnCloudinary e thumbnailLocalPath s1
                   in (case uploadedVideo of
                         None \<Rightarrow> (Inl (ApiError 500 ''Failed to upload video file''), s2)
                       | Some vf \<Rightarrow>
                           if response_public_id vf = []
                           then (Inl (ApiError 500 ''Failed to upload video file''), s2)
                           else
                             (case uploadedThumbnail of
                                None \<Rightarrow>
                                  (Inl (ApiError 500 ''Failed to upload thumbnail file''), s2)
                              | Some th \<Rightarrow>
                                  if response_public_id th = []
                                  then (Inl (ApiError 500 ''Failed to upload thumbnail file''), s2)
                                  else
                                    (let dur = formatDuration e (response_duration vf);
                                         (created, s3) =
                                           create e t d (assetOf vf) (assetOf th) ts dur
                                             (user req) s2
                                     in (case created of
                                           Inl err \<Rightarrow> (Inl err, s3)
                                         | Inr v \<Rightarrow>
                                             (let s4 = revalidateRelatedCaches ''all-videos'' s3
                                              in (Inr (201, ApiResponse 201 (StoredVideo v)
                                                              ''Video published successfully''),
                                                  s4)))))))))"

definition deleteVideo :: "environment \<Rightarrow> request \<Rightarrow> state \<Rightarrow> (error + reply) \<times> state" where
  "deleteVideo e req s =
     (let (found, s1) = findByIdAndDelete (params_id req) s
      in (case found of
            Inl err \<Rightarrow> (Inl err, s1)
          | Inr None \<Rightarrow> (Inl (ApiError 500 ''Failed to delete video''), s1)
          | Inr (Some v) \<Rightarrow>
              (let cacheKey = generateCacheKey ''video'' (Ident (params_id req));
                   s2 = revalidateCache cacheKey s1;
                   s3 = revalidateRelatedCaches ''all-videos'' s2
               in (Inr (200, ApiResponse 200 EmptyObject ''Video deleted''), s3))))"

definition updateVideoPublishStatus ::
  "environment \<Rightarrow> request \<Rightarrow> state \<Rightarrow> (error + reply) \<times> state" where
  "updateVideoPublishStatus e req s =
     (let videoId = params_id req;
          (found, s1) =
            findByIdAndUpdate videoId
              (\<lambda>v. v\<lparr>isPublished := setField (body_isPublished (reqBody req)) (isPublished v)\<rparr>) s
      in (case found of
            Inl err \<Rightarrow> (Inl err, s1)
          | Inr None \<Rightarrow> (Inl (ApiError 500 ''Failed to update video publish status''), s1)
          | Inr (Some v) \<Rightarrow>
              (let cacheKey = generateCacheKey ''video'' (Ident videoId);
                   s2 = revalidateCache cacheKey s1;
                   s3 = revalidateRelatedCaches ''all-videos'' s2
               in (Inr (200, ApiResponse 200 (StoredVideo v) ''Video publish status updated''),
                   s3))))"

text \<open>
  Line 323 deletes the key before line 325 looks it up; line 339, the \<^verbatim>\<open>setCache\<close> of the
  response, is commented out in the source.
\<close>

definition getRelatedVideos :: "environment \<Rightarrow> request \<Rightarrow> state \<Rightarrow> (error + reply) \<times> state" where
  "getRelatedVideos e req s =
     (let videoId = params_id req
      in if \<not> isValidObjectId videoId then (Inl (ApiError 400 ''Invalid video Id''), s)
         else
           (let (found, s1) = findById videoId s
            in (case found of
                  Inl err \<Rightarrow> (Inl err, s1)
                | Inr None \<Rightarrow> (Inl (ApiError 404 ''Video not found''), s1)
                | Inr (Some v) \<Rightarrow>
                    (let cacheKey = generateCacheKey ''related-videos'' (Ident videoId);
                         s2 = revalidateCache cacheKey s1;
                         (cachedRes, s3) = checkCache cacheKey s2
                     in (case cachedRes of
                           Some r \<Rightarrow> (Inr (200, r), s3)
                         | None \<Rightarrow>
                             (let (relatedVideos, s4) = findRelated videoId (tags v) s3;
                                  response =
                                    ApiResponse 200 (RelatedVideos relatedVideos)
                                      ''Related videos found''
                              in (Inr (200, response), s4)))))))"

subsection \<open>Example data\<close>

text \<open>
  A store with three records of one owner: two published ones and an unpublished one that
  shares the tag of the first. The examples below run the handlers on it.
\<close>

definition exampleEnvironment :: environment where
  "exampleEnvironment =
     \<lparr>objectStorage =
        (\<lambda>p. if p = ''/tmp/thumb''
              then Some \<lparr>secure_url = ''cdn/thumb'', response_public_id = ''thumb1'',
                         response_duration = 0\<rparr>
              else if p = ''/tmp/movie''
              then Some \<lparr>secure_url = ''cdn/movie'', response_public_id = ''movie1'',
                         response_duration = 65\<rparr>
              else None),
      formatDuration = (\<lambda>n. ''1:05''),
      regexEngine = (\<lambda>p. None),
      newId = ''00000000000000000000000f'',
      now = 40,
      publishedDefault = True\<rparr>"

definition alice :: user where
  "alice =
     \<lparr>user_id = ''0000000000000000000000a1'', username = ''alice'', fullName = ''Alice'',
      email = ''a@ex.org'', avatar = ''cdn/a'',
      coverImage = ''cdn/c''\<rparr>"

definition catsVideo :: video where
  "catsVideo =
     \<lparr>video_id = ''000000000000000000000001'', title = ''Cats playing'',
      description = ''Play'',
      videoFile = \<lparr>url = ''cdn/v1'', public_id = ''v1''\<rparr>,
      thumbnail = \<lparr>url = ''cdn/t1'', public_id = ''t1''\<rparr>,
      tags = [''cats''], duration = ''1:00'', owner = ''0000000000000000000000a1'',
      isPublished = True, createdAt = 10\<rparr>"

definition dogsVideo :: video where
  "dogsVideo =
     \<lparr>video_id = ''000000000000000000000002'', title = ''Dogs'',
      description = ''Walk'',
      videoFile = \<lparr>url = ''cdn/v2'', public_id = ''v2''\<rparr>,
      thumbnail = \<lparr>url = ''cdn/t2'', public_id = ''t2''\<rparr>,
      tags = [''dogs''], duration = ''2:00'', owner = ''0000000000000000000000a1'',
      isPublished = True, createdAt = 20\<rparr>"

definition draftVideo :: video where
  "draftVideo =
     \<lparr>video_id = ''000000000000000000000003'', title = ''Kittens'',
      description = ''Draft'',
      videoFile = \<lparr>url = ''cdn/v3'', public_id = ''v3''\<rparr>,
      thumbnail = \<lparr>url = ''cdn/t3'', public_id = ''t3''\<rparr>,
      tags = [''cats'', ''kittens''], duration = ''0:30'', owner = ''0000000000000000000000a1'',
      isPublished = False, createdAt = 30\<rparr>"

definition exampleState :: state where
  "exampleState =
     \<lparr>videoStore = [catsVideo, dogsVideo, draftVideo], userStore = [alice],
      cache = Map.empty, trace = []\<rparr>"

definition emptyBody :: body where
  "emptyBody =
     \<lparr>body_title = None, body_description = None, body_tags = None, body_isPublished = None\<rparr>"

text \<open>A request with nothing but the query and the identifier of the route.\<close>

definition exampleRequest :: "(string \<times> string) list \<Rightarrow> string \<Rightarrow> request" where
  "exampleRequest qs i =
     \<lparr>query = qs, params_id = i, reqBody = emptyBody, file_path = None,
      files_videoFile = None, files_thumbnail = None, user = ''0000000000000000000000a1''\<rparr>"

text \<open>An update of title and description with no thumbnail attached.\<close>

definition titleOnlyUpdate :: request where
  "titleOnlyUpdate =
     (exampleRequest [] ''000000000000000000000001'')
       \<lparr>reqBody := emptyBody\<lparr>body_title := Some ''Cats at play'',
                              body_description := Some ''Play more''\<rparr>\<rparr>"

text \<open>A new thumbnail and a new title for the first record.\<close>

definition thumbnailUpdate :: request where
  "thumbnailUpdate =
     (exampleRequest [] ''000000000000000000000001'')
       \<lparr>reqBody := emptyBody\<lparr>body_title := Some ''Cats at play''\<rparr>,
        file_path := Some ''/tmp/thumb''\<rparr>"

definition publishRequest :: request where
  "publishRequest =
     (exampleRequest [] [])
       \<lparr>reqBody := emptyBody\<lparr>body_title := Some ''Birds'', body_description := Some ''At dawn'',
                              body_tags := Some [''birds'']\<rparr>,
        files_videoFile := Some ''/tmp/movie'',
        files_thumbnail := Some ''/tmp/thumb''\<rparr>"

definition retagRequest :: request where
  "retagRequest =
     (exampleRequest [] [])
       \<lparr>reqBody := emptyBody\<lparr>body_title := Some ''Animals'', body_tags := Some [''animals'']\<rparr>\<rparr>"

definition unpublishRequest :: request where
  "unpublishRequest =
     (exampleRequest [] ''000000000000000000000002'')
       \<lparr>reqBody := emptyBody\<lparr>body_isPublished := Some False\<rparr>\<rparr>"

text \<open>A query with a TAB between its two words.\<close>

definition tabbedQuery :: string where
  "tabbedQuery = ''zz'' @ [CHR 0x09] @ ''cats''"

text \<open>The page of the first record alone, and the empty page.\<close>

definition catsPage :: paginateResult where
  "catsPage =
     \<lparr>docs = [resolveOwner [alice] True catsVideo],
      totalDocs = 1, result_totalPages = 1, page = 1,
      result_hasNextPage = False, result_hasPrevPage = False\<rparr>"

definition emptyPage :: paginateResult where
  "emptyPage =
     \<lparr>docs = [], totalDocs = 0, result_totalPages = 1, page = 1,
      result_hasNextPage = False, result_hasPrevPage = False\<rparr>"

text \<open>The first page of the listing of the example, newest record first.\<close>

definition examplePage :: paginateResult where
  "examplePage =
     \<lparr>docs = [resolveOwner [alice] True dogsVideo, resolveOwner [alice] True catsVideo],
      totalDocs = 2, result_totalPages = 1, page = 1,
      result_hasNextPage = False, result_hasPrevPage = False\<rparr>"

text \<open>
  A state whose cache holds an entry under the related-videos key of the first record.
\<close>

definition staleRelated :: apiResponse where
  "staleRelated = ApiResponse 200 (RelatedVideos []) ''Related videos found''"

definition cachedRelatedState :: state where
  "cachedRelatedState =
     exampleState\<lparr>cache := [''related-videos:000000000000000000000001'' \<mapsto> staleRelated]\<rparr>"

text \<open>A well-formed identifier that no record of the example has.\<close>

definition missingId :: string where
  "missingId = ''0000000000000000000000ff''"

text \<open>The same update, of a record that does not exist.\<close>

definition missingUpdate :: request where
  "missingUpdate = thumbnailUpdate\<lparr>params_id := missingId\<rparr>"

subsection \<open>Notions used in the statements\<close>

text \<open>A handler succeeded when it sent a reply rather than throwing.\<close>

definition succeeded :: "(error + reply) \<times> state \<Rightarrow> bool" where
  "succeeded r = (case fst r of Inl _ \<Rightarrow> False | Inr _ \<Rightarrow> True)"

text \<open>
  The text search as the specification words it (section 4.4, step 1): the title or the
  description contains the query, letters compared without case, or a tag of the record
  is one of the query's tokens, lower-cased and split on white space. These definitions
  follow the specification, not the source; the theorems below compare them with what
  the source does.
\<close>

definition containsIgnoringCase :: "string \<Rightarrow> string \<Rightarrow> bool" where
  "containsIgnoringCase q s = sublist (toLowerCase q) (toLowerCase s)"

fun splitWhitespace :: "string \<Rightarrow> string list" where
  "splitWhitespace [] = [[]]"
| "splitWhitespace (c # cs) =
     (if isSpace c then [] # splitWhitespace cs
      else (case splitWhitespace cs of
              [] \<Rightarrow> [[c]]
            | w # ws \<Rightarrow> (c # w) # ws))"

definition whitespaceTokens :: "string \<Rightarrow> string list" where
  "whitespaceTokens q = map toLowerCase (filter (\<lambda>w. w \<noteq> []) (splitWhitespace q))"

definition specifiedTextFilter :: "string \<Rightarrow> video \<Rightarrow> bool" where
  "specifiedTextFilter q v =
     (isPublished v
      \<and> (containsIgnoringCase q (title v) \<or> containsIgnoringCase q (description v)
         \<or> list_ex (\<lambda>t. t \<in> set (whitespaceTokens q)) (tags v)))"

text \<open>
  The request for page \<open>p\<close> with the other parameters of a request: its \<^verbatim>\<open>page\<close> parameter is
  the decimal text of \<open>p\<close>, as a client writes it in the URL.
\<close>

definition decimalDigit :: "nat \<Rightarrow> char" where
  "decimalDigit d = char_of (48 + d)"

fun decimal :: "nat \<Rightarrow> string" where
  "decimal n =
     (if n < 10 then [decimalDigit n] else decimal (n div 10) @ [decimalDigit (n mod 10)])"

definition pageRequest :: "request \<Rightarrow> nat \<Rightarrow> request" where
  "pageRequest req p =
     req\<lparr>query := (''page'', decimal p) # filter (\<lambda>nv. fst nv \<noteq> ''page'') (query req)\<rparr>"

text \<open>The records in the reply of a listing; none when the handler failed.\<close>

definition responseVideos :: "(error + reply) \<times> state \<Rightarrow> videoDoc list" where
  "responseVideos r =
     (case fst r of
        Inl _ \<Rightarrow> []
      | Inr rep \<Rightarrow> (case data (snd rep) of PageData pr \<Rightarrow> videos pr | _ \<Rightarrow> []))"

text \<open>The not-found error: an \<open>ApiError\<close> of status 404.\<close>

definition isNotFound :: "error + reply \<Rightarrow> bool" where
  "isNotFound r = (case r of Inl (ApiError c m) \<Rightarrow> c = 404 | _ \<Rightarrow> False)"

section \<open>Properties\<close>

subsection \<open>Auxiliary facts\<close>

lemma tags_in_iff: "list_ex (\<lambda>t. t \<in> set ts) us \<longleftrightarrow> set us \<inter> set ts \<noteq> {}"
  by (auto simp: list_ex_iff)

lemma find_id_Some: "find (\<lambda>v. video_id v = i) vs = Some w \<Longrightarrow> video_id w = i"
  by (auto simp: find_Some_iff)

subsection \<open>The listing handler, case by case\<close>


lemma getAllVideos_hit:
  assumes "listingSearchQuery req = Inr sq"
    and "cache s (generateCacheKey ''all-videos'' (Params (query req))) = Some r"
  shows "getAllVideos e req s =
           (Inr (200, r), logEvent (CacheGet (generateCacheKey ''all-videos'' (Params (query req)))) s)"
  using assms by (simp add: getAllVideos_def Let_def checkCache_def)

lemma aggregatePaginate_state:
  "snd (aggregatePaginate e aq opts s) = logEvent (RecordQuery ''aggregatePaginate'') s"
  by (simp add: aggregatePaginate_def Let_def split: option.splits)

lemma getAllVideos_miss:
  assumes "listingSearchQuery req = Inr sq"
    and "cache s (generateCacheKey ''all-videos'' (Params (query req))) = None"
  shows "getAllVideos e req s =
     (case fst (aggregatePaginate e \<lparr>matchStage = sq, sortQuery = listingSortQuery req\<rparr>
                  (listingOptions req) s) of
        Inl err \<Rightarrow>
          (Inl err,
           logEvent (RecordQuery ''aggregatePaginate'')
             (logEvent (CacheGet (generateCacheKey ''all-videos'' (Params (query req)))) s))
      | Inr r \<Rightarrow>
          (Inr (200, listingResponse r),
           setCache (listingResponse r) (generateCacheKey ''all-videos'' (Params (query req)))
             (logEvent (RecordQuery ''aggregatePaginate'')
                (logEvent (CacheGet (generateCacheKey ''all-videos'' (Params (query req)))) s))))"
proof -
  let ?key = "generateCacheKey ''all-videos'' (Params (query req))"
  let ?aq = "\<lparr>matchStage = sq, sortQuery = listingSortQuery req\<rparr>"
  have res: "fst (aggregatePaginate e ?aq (listingOptions req) (logEvent (CacheGet ?key) s)) =
      fst (aggregatePaginate e ?aq (listingOptions req) s)"
    by (simp add: aggregatePaginate_def Let_def logEvent_def split: option.splits)
  obtain result s2 where
    ap: "aggregatePaginate e ?aq (listingOptions req) (logEvent (CacheGet ?key) s) = (result, s2)"
    by (cases "aggregatePaginate e ?aq (listingOptions req) (logEvent (CacheGet ?key) s)")
  have s2: "s2 = logEvent (RecordQuery ''aggregatePaginate'') (logEvent (CacheGet ?key) s)"
    using aggregatePaginate_state [of e ?aq "listingOptions req" "logEvent (CacheGet ?key) s"] ap
    by simp
  have result: "result = fst (aggregatePaginate e ?aq (listingOptions req) s)"
    using res ap by simp
  show ?thesis
    using assms ap s2 result
    by (simp add: getAllVideos_def Let_def checkCache_def split: sum.splits)
qed

lemma getAllVideos_miss_result:
  assumes "listingSearchQuery req = Inr sq"
    and "cache s (generateCacheKey ''all-videos'' (Params (query req))) = None"
    and "fst (aggregatePaginate e \<lparr>matchStage = sq, sortQuery = listingSortQuery req\<rparr>
                (listingOptions req) s) = Inr r"
  shows "getAllVideos e req s =
           (Inr (200, listingResponse r),
            setCache (listingResponse r) (generateCacheKey ''all-videos'' (Params (query req)))
              (logEvent (RecordQuery ''aggregatePaginate'')
                 (logEvent (CacheGet (generateCacheKey ''all-videos'' (Params (query req)))) s)))"
  using assms by (simp add: getAllVideos_miss)

lemma getAllVideos_miss_succeeds:
  assumes "listingSearchQuery req = Inr sq"
    and "cache s (generateCacheKey ''all-videos'' (Params (query req))) = None"
    and "compileSearchQuery e sq = Some m"
    and "1 \<le> effectivePage (fst (listingOptions req))"
  shows "succeeded (getAllVideos e req s)"
proof -
  have "0 \<le> (effectivePage (fst (listingOptions req)) - 1)
            * int (effectiveLimit (snd (listingOptions req)))"
    using assms(4) by simp
  then have "\<exists>r. fst (aggregatePaginate e \<lparr>matchStage = sq, sortQuery = listingSortQuery req\<rparr>
                (listingOptions req) s) = Inr r"
    using assms(3) by (simp add: aggregatePaginate_def Let_def)
  then show ?thesis
    using getAllVideos_miss [OF assms(1,2), of e] by (auto simp: succeeded_def)
qed

lemma getAllVideos_Inr_query:
  assumes "getAllVideos e req s = (Inr rep, s')"
  obtains sq where "listingSearchQuery req = Inr sq"
  using assms by (auto simp: getAllVideos_def split: sum.splits)

lemma getAllVideos_miss_Inr:
  assumes "cache s (generateCacheKey ''all-videos'' (Params (query req))) = None"
    and "getAllVideos e req s = (Inr rep, s')"
  obtains sq r where "listingSearchQuery req = Inr sq"
    and "fst (aggregatePaginate e \<lparr>matchStage = sq, sortQuery = listingSortQuery req\<rparr>
                (listingOptions req) s) = Inr r"
    and "rep = (200, listingResponse r)"
    and "s' = setCache (listingResponse r) (generateCacheKey ''all-videos'' (Params (query req)))
             (logEvent (RecordQuery ''aggregatePaginate'')
                (logEvent (CacheGet (generateCacheKey ''all-videos'' (Params (query req)))) s))"
proof -
  obtain sq where sq: "listingSearchQuery req = Inr sq"
    using assms(2) by (rule getAllVideos_Inr_query)
  show thesis
    using assms(2) that [OF sq]
    unfolding getAllVideos_miss [OF sq assms(1)]
    by (auto split: sum.splits)
qed

lemma getAllVideos_twice:
  assumes "getAllVideos e req s = (Inr rep, s')"
  shows "getAllVideos e req s' =
           (Inr rep, logEvent (CacheGet (generateCacheKey ''all-videos'' (Params (query req)))) s')"
proof -
  let ?key = "generateCacheKey ''all-videos'' (Params (query req))"
  obtain sq where sq: "listingSearchQuery req = Inr sq"
    using assms by (rule getAllVideos_Inr_query)
  show ?thesis
  proof (cases "cache s ?key")
    case (Some r)
    with sq assms have "rep = (200, r)" "s' = logEvent (CacheGet ?key) s"
      by (simp_all add: getAllVideos_hit)
    then have "cache s' ?key = Some r"
      using Some by (simp add: logEvent_def)
    with sq \<open>rep = (200, r)\<close> show ?thesis
      by (simp add: getAllVideos_hit)
  next
    case None
    from None assms obtain r where "rep = (200, listingResponse r)"
      and "s' = setCache (listingResponse r) ?key
             (logEvent (RecordQuery ''aggregatePaginate'') (logEvent (CacheGet ?key) s))"
      by (rule getAllVideos_miss_Inr)
    then have "cache s' ?key = Some (snd rep)" "rep = (200, snd rep)"
      by (simp_all add: setCache_def logEvent_def)
    with sq show ?thesis
      using getAllVideos_hit [OF sq, of s' "snd rep" e] by simp
  qed
qed

lemma getRelatedVideos_ignores_cache:
  "fst (getRelatedVideos e req (s\<lparr>cache := c\<rparr>)) = fst (getRelatedVideos e req s)"
  by (simp add: getRelatedVideos_def Let_def findById_def revalidateCache_def checkCache_def
      findRelated_def logEvent_def split: option.splits)

lemma getRelatedVideos_effects:
  assumes "getRelatedVideos e req s = (Inr rep, s')"
  shows "trace s' =
           trace s @ [RecordQuery ''findById'',
                      CacheDelete (generateCacheKey ''related-videos'' (Ident (params_id req))),
                      CacheGet (generateCacheKey ''related-videos'' (Ident (params_id req))),
                      RecordQuery ''find'']
         \<and> cache s' = (cache s)(generateCacheKey ''related-videos'' (Ident (params_id req)) := None)"
  using assms
  by (auto simp: getRelatedVideos_def Let_def findById_def revalidateCache_def checkCache_def
      findRelated_def logEvent_def split: option.splits if_splits)

lemma getVideoById_effects:
  assumes "getVideoById e req s = (Inr rep, s')"
  shows "trace s' =
           trace s @ [CacheGet (generateCacheKey ''video'' (Ident (params_id req))),
                      RecordQuery ''findById'',
                      CacheSet (generateCacheKey ''video'' (Ident (params_id req)))]
         \<and> cache s' = (cache s)(generateCacheKey ''video'' (Ident (params_id req)) \<mapsto> snd rep)"
  using assms
  by (auto simp: getVideoById_def Let_def findById_def setCache_def checkCache_def
      logEvent_def split: option.splits if_splits)

text \<open>The listing without parameters on the example: the page, and the state it leaves.\<close>

lemma example_listing_run:
  "getAllVideos exampleEnvironment (exampleRequest [] []) exampleState =
     (Inr (200, listingResponse examplePage),
      setCache (listingResponse examplePage) ''all-videos:''
        (logEvent (RecordQuery ''aggregatePaginate'')
           (logEvent (CacheGet ''all-videos:'') exampleState)))"
proof -
  let ?req = "exampleRequest [] []"
  have sq: "listingSearchQuery ?req = Inr (textSearchQuery None)"
    by code_simp
  have key: "generateCacheKey ''all-videos'' (Params (query ?req)) = ''all-videos:''"
    by code_simp
  have miss: "cache exampleState (generateCacheKey ''all-videos'' (Params (query ?req))) = None"
    by (simp add: exampleState_def)
  have page: "fst (aggregatePaginate exampleEnvironment
                 \<lparr>matchStage = textSearchQuery None, sortQuery = listingSortQuery ?req\<rparr>
                 (listingOptions ?req) exampleState) = Inr examplePage"
    by code_simp
  show ?thesis
    using getAllVideos_miss_result [OF sq miss page] key by simp
qed

subsection \<open>Update without a thumbnail\<close>

text \<open>
  Claim C10. An update-by-id request that carries no thumbnail file fails with the server
  error (status 500, "Failed to update thumbnail") and reaches nothing but the upload
  helper: the state it leaves is the state it found with the one upload event logged, so
  the record store is untouched and a title-and-description-only update cannot succeed.
  The request is rejected with status 400 for missing fields exactly when title,
  description and thumbnail path are all three present and empty, as the code tests them
  (after \<^verbatim>\<open>trim\<close>).
\<close>

theorem updateVideoById_without_thumbnail:
  "(file_path req = None \<longrightarrow>
      updateVideoById e req s =
        (Inl (ApiError 500 ''Failed to update thumbnail''), logEvent (Upload None) s))
   \<and> (fst (updateVideoById e req s) = Inl (ApiError 400 ''Please provide All required fields'')
        \<longleftrightarrow> (\<exists>t d p. body_title (reqBody req) = Some t \<and> body_description (reqBody req) = Some d
                    \<and> file_path req = Some p \<and> trim t = [] \<and> trim d = [] \<and> trim p = []))"
proof (intro conjI impI)
  assume "file_path req = None"
  then show "updateVideoById e req s =
        (Inl (ApiError 500 ''Failed to update thumbnail''), logEvent (Upload None) s)"
    by (simp add: updateVideoById_def trimsToEmpty_def uploadOnCloudinary_def)
next
  show "fst (updateVideoById e req s) = Inl (ApiError 400 ''Please provide All required fields'')
        \<longleftrightarrow> (\<exists>t d p. body_title (reqBody req) = Some t \<and> body_description (reqBody req) = Some d
                    \<and> file_path req = Some p \<and> trim t = [] \<and> trim d = [] \<and> trim p = [])"
    by (auto simp: updateVideoById_def trimsToEmpty_def uploadOnCloudinary_def Let_def
          findByIdAndUpdate_def
          split: option.splits prod.splits sum.splits if_splits)
qed

text \<open>
  The example: a new title and description for the first record, no file. The handler
  fails with status 500 and the three records are as they were.
\<close>

theorem updateVideoById_without_thumbnail_witness:
  "file_path titleOnlyUpdate = None
   \<and> updateVideoById exampleEnvironment titleOnlyUpdate exampleState =
       (Inl (ApiError 500 ''Failed to update thumbnail''), logEvent (Upload None) exampleState)
   \<and> videoStore (snd (updateVideoById exampleEnvironment titleOnlyUpdate exampleState)) =
       [catsVideo, dogsVideo, draftVideo]"
  using updateVideoById_without_thumbnail [of titleOnlyUpdate exampleEnvironment exampleState]
  by (simp add: titleOnlyUpdate_def exampleRequest_def exampleState_def logEvent_def)

subsection \<open>Related videos\<close>

text \<open>
  Claim C9. For a subject video that exists, the related-videos operation answers with
  exactly the stored records other than the subject whose tags meet the subject's tags,
  each with its owner resolved to the projected stub (without cover image), in stored
  order. The publication flag plays no part, so an unpublished record can be in the answer.
\<close>

theorem getRelatedVideos_result:
  assumes "isValidObjectId (params_id req)"
    and "find (\<lambda>v. video_id v = ObjectId (params_id req)) (videoStore s) = Some subject"
  shows "fst (getRelatedVideos e req s) =
           Inr (200, ApiResponse 200
                  (RelatedVideos
                     (map (resolveOwner (userStore s) False)
                        (filter (\<lambda>v. video_id v \<noteq> video_id subject
                                     \<and> set (tags v) \<inter> set (tags subject) \<noteq> {})
                           (videoStore s))))
                  ''Related videos found'')"
proof -
  have "video_id subject = ObjectId (params_id req)"
    using assms(2) by (rule find_id_Some)
  then show ?thesis
    using assms
    by (simp add: getRelatedVideos_def findById_def revalidateCache_def checkCache_def
        findRelated_def logEvent_def Let_def tags_in_iff)
qed

text \<open>
  The example: the videos related to the first record are the unpublished third one, which
  shares the tag \<open>cats\<close>, and no other.
\<close>

theorem getRelatedVideos_result_witness:
  "isValidObjectId ''000000000000000000000001''
   \<and> find (\<lambda>v. video_id v = ObjectId ''000000000000000000000001'') (videoStore exampleState)
       = Some catsVideo
   \<and> fst (getRelatedVideos exampleEnvironment (exampleRequest [] ''000000000000000000000001'')
            exampleState) =
       Inr (200, ApiResponse 200
              (RelatedVideos [\<lparr>doc = draftVideo, resolvedOwner = Some (projectOwner False alice)\<rparr>])
              ''Related videos found'')
   \<and> \<not> isPublished draftVideo"
proof -
  have valid: "isValidObjectId (params_id (exampleRequest [] ''000000000000000000000001''))"
    by code_simp
  have subject:
    "find (\<lambda>v. video_id v = ObjectId (params_id (exampleRequest [] ''000000000000000000000001'')))
       (videoStore exampleState) = Some catsVideo"
    by code_simp
  have related:
    "map (resolveOwner (userStore exampleState) False)
       (filter (\<lambda>v. video_id v \<noteq> video_id catsVideo \<and> set (tags v) \<inter> set (tags catsVideo) \<noteq> {})
          (videoStore exampleState)) =
     [\<lparr>doc = draftVideo, resolvedOwner = Some (projectOwner False alice)\<rparr>]"
    by code_simp
  have draft: "\<not> isPublished draftVideo"
    by (simp add: draftVideo_def)
  show ?thesis
    using getRelatedVideos_result [OF valid subject, of exampleEnvironment] valid subject related draft
    by (simp add: exampleRequest_def)
qed

subsection \<open>Mutations: write first, then invalidate\<close>

lemma succeededE:
  assumes "succeeded (h :: (error + reply) \<times> state)"
  obtains rep where "h = (Inr rep, snd h)"
  using assms by (cases h; cases "fst h") (auto simp: succeeded_def)

lemma publishVideo_effects:
  assumes "publishVideo e req s = (Inr rep, s')"
  shows "trace s' = trace s @ [Upload (files_videoFile req), Upload (files_thumbnail req),
                               RecordWrite ''create'', CacheDeleteGroup ''all-videos'']
         \<and> (\<exists>v. videoStore s' = videoStore s @ [v])
         \<and> (\<forall>k. prefix ''all-videos'' k \<longrightarrow> cache s' k = None)"
  using assms
  by (auto simp: publishVideo_def Let_def uploadOnCloudinary_def create_def
      revalidateRelatedCaches_def logEvent_def
      split: if_splits option.splits prod.splits sum.splits)

lemma updateVideoById_effects:
  assumes "updateVideoById e req s = (Inr rep, s')"
  shows "trace s' = trace s @ [Upload (file_path req), RecordWrite ''findByIdAndUpdate'',
                               CacheDelete (generateCacheKey ''video'' (Ident (params_id req))),
                               CacheDeleteGroup ''all-videos'']
         \<and> (\<exists>upd. videoStore s' =
               updateFirst (\<lambda>v. video_id v = ObjectId (params_id req)) upd (videoStore s))
         \<and> cache s' (generateCacheKey ''video'' (Ident (params_id req))) = None
         \<and> (\<forall>k. prefix ''all-videos'' k \<longrightarrow> cache s' k = None)"
  using assms
  by (auto simp: updateVideoById_def Let_def uploadOnCloudinary_def findByIdAndUpdate_def
      revalidateRelatedCaches_def revalidateCache_def logEvent_def
      split: if_splits option.splits prod.splits sum.splits)

lemma updateAllVideo_effects:
  assumes "updateAllVideo e req s = (Inr rep, s')"
  shows "trace s' = trace s @ [RecordWrite ''updateMany'', CacheDeleteGroup ''all-videos'']
         \<and> (\<exists>upd. videoStore s' = map upd (videoStore s))
         \<and> (\<forall>k. prefix ''all-videos'' k \<longrightarrow> cache s' k = None)"
  using assms
  by (auto simp: updateAllVideo_def Let_def updateMany_def
      revalidateRelatedCaches_def logEvent_def
      split: if_splits option.splits prod.splits sum.splits)

lemma deleteVideo_effects:
  assumes "deleteVideo e req s = (Inr rep, s')"
  shows "trace s' = trace s @ [RecordWrite ''findByIdAndDelete'',
                               CacheDelete (generateCacheKey ''video'' (Ident (params_id req))),
                               CacheDeleteGroup ''all-videos'']
         \<and> videoStore s' = deleteFirst (\<lambda>v. video_id v = ObjectId (params_id req)) (videoStore s)
         \<and> cache s' (generateCacheKey ''video'' (Ident (params_id req))) = None
         \<and> (\<forall>k. prefix ''all-videos'' k \<longrightarrow> cache s' k = None)"
  using assms
  by (auto simp: deleteVideo_def Let_def findByIdAndDelete_def
      revalidateRelatedCaches_def revalidateCache_def logEvent_def
      split: if_splits option.splits prod.splits sum.splits)

lemma updateVideoPublishStatus_effects:
  assumes "updateVideoPublishStatus e req s = (Inr rep, s')"
  shows "trace s' = trace s @ [RecordWrite ''findByIdAndUpdate'',
                               CacheDelete (generateCacheKey ''video'' (Ident (params_id req))),
                               CacheDeleteGroup ''all-videos'']
         \<and> videoStore s' =
               updateFirst (\<lambda>v. video_id v = ObjectId (params_id req))
                 (\<lambda>v. v\<lparr>isPublished := setField (body_isPublished (reqBody req)) (isPublished v)\<rparr>)
                 (videoStore s)
         \<and> cache s' (generateCacheKey ''video'' (Ident (params_id req))) = None
         \<and> (\<forall>k. prefix ''all-videos'' k \<longrightarrow> cache s' k = None)"
  using assms
  by (auto simp: updateVideoPublishStatus_def Let_def findByIdAndUpdate_def
      revalidateRelatedCaches_def revalidateCache_def logEvent_def
      split: if_splits option.splits prod.splits sum.splits)

text \<open>
  Claim C2. Each of the five mutations (publish, update by id, update of all records,
  delete, change of the publication status), when it succeeds, appends to the log exactly:
  its uploads if it has any, then the one write to the record store, then (for the
  mutations that target an identifier) the deletion of the single-entity key, then the
  invalidation of the group \<open>all-videos\<close>. So the write has been made before any
  invalidation is attempted, and when the handler returns the cache has no entry under
  the single-entity key and none under any key of the group.
\<close>

theorem mutations_write_then_invalidate:
  "(succeeded (publishVideo e req s) \<longrightarrow>
      trace (snd (publishVideo e req s)) =
        trace s @ [Upload (files_videoFile req), Upload (files_thumbnail req),
                   RecordWrite ''create'', CacheDeleteGroup ''all-videos'']
      \<and> (\<forall>k. prefix ''all-videos'' k \<longrightarrow> cache (snd (publishVideo e req s)) k = None))
   \<and> (succeeded (updateVideoById e req s) \<longrightarrow>
      trace (snd (updateVideoById e req s)) =
        trace s @ [Upload (file_path req), RecordWrite ''findByIdAndUpdate'',
                   CacheDelete (generateCacheKey ''video'' (Ident (params_id req))),
                   CacheDeleteGroup ''all-videos'']
      \<and> cache (snd (updateVideoById e req s)) (generateCacheKey ''video'' (Ident (params_id req))) = None
      \<and> (\<forall>k. prefix ''all-videos'' k \<longrightarrow> cache (snd (updateVideoById e req s)) k = None))
   \<and> (succeeded (updateAllVideo e req s) \<longrightarrow>
      trace (snd (updateAllVideo e req s)) =
        trace s @ [RecordWrite ''updateMany'', CacheDeleteGroup ''all-videos'']
      \<and> (\<forall>k. prefix ''all-videos'' k \<longrightarrow> cache (snd (updateAllVideo e req s)) k = None))
   \<and> (succeeded (deleteVideo e req s) \<longrightarrow>
      trace (snd (deleteVideo e req s)) =
        trace s @ [RecordWrite ''findByIdAndDelete'',
                   CacheDelete (generateCacheKey ''video'' (Ident (params_id req))),
                   CacheDeleteGroup ''all-videos'']
      \<and> videoStore (snd (deleteVideo e req s)) =
          deleteFirst (\<lambda>v. video_id v = ObjectId (params_id req)) (videoStore s)
      \<and> cache (snd (deleteVideo e req s)) (generateCacheKey ''video'' (Ident (params_id req))) = None
      \<and> (\<forall>k. prefix ''all-videos'' k \<longrightarrow> cache (snd (deleteVideo e req s)) k = None))
   \<and> (succeeded (updateVideoPublishStatus e req s) \<longrightarrow>
      trace (snd (updateVideoPublishStatus e req s)) =
        trace s @ [RecordWrite ''findByIdAndUpdate'',
                   CacheDelete (generateCacheKey ''video'' (Ident (params_id req))),
                   CacheDeleteGroup ''all-videos'']
      \<and> videoStore (snd (updateVideoPublishStatus e req s)) =
          updateFirst (\<lambda>v. video_id v = ObjectId (params_id req))
            (\<lambda>v. v\<lparr>isPublished := setField (body_isPublished (reqBody req)) (isPublished v)\<rparr>)
            (videoStore s)
      \<and> cache (snd (updateVideoPublishStatus e req s))
          (generateCacheKey ''video'' (Ident (params_id req))) = None
      \<and> (\<forall>k. prefix ''all-videos'' k \<longrightarrow> cache (snd (updateVideoPublishStatus e req s)) k = None))"
proof (intro conjI impI)
  assume "succeeded (publishVideo e req s)"
  then obtain rep where "publishVideo e req s = (Inr rep, snd (publishVideo e req s))"
    by (rule succeededE)
  from publishVideo_effects [OF this]
  show "trace (snd (publishVideo e req s)) =
        trace s @ [Upload (files_videoFile req), Upload (files_thumbnail req),
                   RecordWrite ''create'', CacheDeleteGroup ''all-videos'']"
    and "\<forall>k. prefix ''all-videos'' k \<longrightarrow> cache (snd (publishVideo e req s)) k = None"
    by blast+
next
  assume "succeeded (updateVideoById e req s)"
  then obtain rep where "updateVideoById e req s = (Inr rep, snd (updateVideoById e req s))"
    by (rule succeededE)
  from updateVideoById_effects [OF this]
  show "trace (snd (updateVideoById e req s)) =
        trace s @ [Upload (file_path req), RecordWrite ''findByIdAndUpdate'',
                   CacheDelete (generateCacheKey ''video'' (Ident (params_id req))),
                   CacheDeleteGroup ''all-videos'']"
    and "cache (snd (updateVideoById e req s)) (generateCacheKey ''video'' (Ident (params_id req))) = None"
    and "\<forall>k. prefix ''all-videos'' k \<longrightarrow> cache (snd (updateVideoById e req s)) k = None"
    by blast+
next
  assume "succeeded (updateAllVideo e req s)"
  then obtain rep where "updateAllVideo e req s = (Inr rep, snd (updateAllVideo e req s))"
    by (rule succeededE)
  from updateAllVideo_effects [OF this]
  show "trace (snd (updateAllVideo e req s)) =
        trace s @ [RecordWrite ''updateMany'', CacheDeleteGroup ''all-videos'']"
    and "\<forall>k. prefix ''all-videos'' k \<longrightarrow> cache (snd (updateAllVideo e req s)) k = None"
    by blast+
next
  assume "succeeded (deleteVideo e req s)"
  then obtain rep where "deleteVideo e req s = (Inr rep, snd (deleteVideo e req s))"
    by (rule succeededE)
  from deleteVideo_effects [OF this]
  show "trace (snd (deleteVideo e req s)) =
        trace s @ [RecordWrite ''findByIdAndDelete'',
                   CacheDelete (generateCacheKey ''video'' (Ident (params_id req))),
                   CacheDeleteGroup ''all-videos'']"
    and "videoStore (snd (deleteVideo e req s)) =
          deleteFirst (\<lambda>v. video_id v = ObjectId (params_id req)) (videoStore s)"
    and "cache (snd (deleteVideo e req s)) (generateCacheKey ''video'' (Ident (params_id req))) = None"
    and "\<forall>k. prefix ''all-videos'' k \<longrightarrow> cache (snd (deleteVideo e req s)) k = None"
    by blast+
next
  assume "succeeded (updateVideoPublishStatus e req s)"
  then obtain rep where
    "updateVideoPublishStatus e req s = (Inr rep, snd (updateVideoPublishStatus e req s))"
    by (rule succeededE)
  from updateVideoPublishStatus_effects [OF this]
  show "trace (snd (updateVideoPublishStatus e req s)) =
        trace s @ [RecordWrite ''findByIdAndUpdate'',
                   CacheDelete (generateCacheKey ''video'' (Ident (params_id req))),
                   CacheDeleteGroup ''all-videos'']"
    and "videoStore (snd (updateVideoPublishStatus e req s)) =
          updateFirst (\<lambda>v. video_id v = ObjectId (params_id req))
            (\<lambda>v. v\<lparr>isPublished := setField (body_isPublished (reqBody req)) (isPublished v)\<rparr>)
            (videoStore s)"
    and "cache (snd (updateVideoPublishStatus e req s))
          (generateCacheKey ''video'' (Ident (params_id req))) = None"
    and "\<forall>k. prefix ''all-videos'' k \<longrightarrow> cache (snd (updateVideoPublishStatus e req s)) k = None"
    by blast+
qed

text \<open>
  The example: each of the five mutations on the example state. Every log shows the write
  before the invalidations, and the deleted record is gone from the store.
\<close>

theorem mutations_write_then_invalidate_witness:
  "succeeded (publishVideo exampleEnvironment publishRequest exampleState)
   \<and> trace (snd (publishVideo exampleEnvironment publishRequest exampleState)) =
       [Upload (Some ''/tmp/movie''), Upload (Some ''/tmp/thumb''), RecordWrite ''create'',
        CacheDeleteGroup ''all-videos'']
   \<and> succeeded (updateVideoById exampleEnvironment thumbnailUpdate exampleState)
   \<and> trace (snd (updateVideoById exampleEnvironment thumbnailUpdate exampleState)) =
       [Upload (Some ''/tmp/thumb''), RecordWrite ''findByIdAndUpdate'',
        CacheDelete ''video:000000000000000000000001'', CacheDeleteGroup ''all-videos'']
   \<and> succeeded (updateAllVideo exampleEnvironment retagRequest exampleState)
   \<and> trace (snd (updateAllVideo exampleEnvironment retagRequest exampleState)) =
       [RecordWrite ''updateMany'', CacheDeleteGroup ''all-videos'']
   \<and> succeeded (deleteVideo exampleEnvironment (exampleRequest [] ''000000000000000000000002'')
                  exampleState)
   \<and> trace (snd (deleteVideo exampleEnvironment (exampleRequest [] ''000000000000000000000002'')
                   exampleState)) =
       [RecordWrite ''findByIdAndDelete'', CacheDelete ''video:000000000000000000000002'',
        CacheDeleteGroup ''all-videos'']
   \<and> videoStore (snd (deleteVideo exampleEnvironment
                         (exampleRequest [] ''000000000000000000000002'') exampleState)) =
       [catsVideo, draftVideo]
   \<and> succeeded (updateVideoPublishStatus exampleEnvironment unpublishRequest exampleState)
   \<and> trace (snd (updateVideoPublishStatus exampleEnvironment unpublishRequest exampleState)) =
       [RecordWrite ''findByIdAndUpdate'', CacheDelete ''video:000000000000000000000002'',
        CacheDeleteGroup ''all-videos'']"
proof -
  let ?del = "exampleRequest [] ''000000000000000000000002''"
  have start: "trace exampleState = []"
    by (simp add: exampleState_def)
  have ok_publish: "succeeded (publishVideo exampleEnvironment publishRequest exampleState)"
    and ok_update: "succeeded (updateVideoById exampleEnvironment thumbnailUpdate exampleState)"
    and ok_all: "succeeded (updateAllVideo exampleEnvironment retagRequest exampleState)"
    and ok_delete: "succeeded (deleteVideo exampleEnvironment ?del exampleState)"
    and ok_status: "succeeded (updateVideoPublishStatus exampleEnvironment unpublishRequest exampleState)"
    by code_simp+
  have files: "files_videoFile publishRequest = Some ''/tmp/movie''"
    "files_thumbnail publishRequest = Some ''/tmp/thumb''"
    "file_path thumbnailUpdate = Some ''/tmp/thumb''"
    by (simp_all add: publishRequest_def thumbnailUpdate_def exampleRequest_def)
  have keys: "generateCacheKey ''video'' (Ident (params_id thumbnailUpdate)) =
      ''video:000000000000000000000001''"
    "generateCacheKey ''video'' (Ident (params_id ?del)) = ''video:000000000000000000000002''"
    "generateCacheKey ''video'' (Ident (params_id unpublishRequest)) =
      ''video:000000000000000000000002''"
    by code_simp+
  have store: "deleteFirst (\<lambda>v. video_id v = ObjectId (params_id ?del)) (videoStore exampleState) =
      [catsVideo, draftVideo]"
    by code_simp
  note publish = mutations_write_then_invalidate
    [of exampleEnvironment publishRequest exampleState,
     THEN conjunct1, rule_format, OF ok_publish, THEN conjunct1]
  note update = mutations_write_then_invalidate
    [of exampleEnvironment thumbnailUpdate exampleState,
     THEN conjunct2, THEN conjunct1, rule_format, OF ok_update, THEN conjunct1]
  note all = mutations_write_then_invalidate
    [of exampleEnvironment retagRequest exampleState,
     THEN conjunct2, THEN conjunct2, THEN conjunct1, rule_format, OF ok_all, THEN conjunct1]
  note delete = mutations_write_then_invalidate
    [of exampleEnvironment ?del exampleState,
     THEN conjunct2, THEN conjunct2, THEN conjunct2, THEN conjunct1, rule_format, OF ok_delete]
  note status = mutations_write_then_invalidate
    [of exampleEnvironment unpublishRequest exampleState,
     THEN conjunct2, THEN conjunct2, THEN conjunct2, THEN conjunct2, rule_format, OF ok_status,
     THEN conjunct1]
  show ?thesis
    using ok_publish ok_update ok_all ok_delete ok_status publish update all
      delete [THEN conjunct1] delete [THEN conjunct2, THEN conjunct1] status
    by (simp only: start files keys store append_Nil simp_thms)
qed

subsection \<open>Operations on a record that does not exist\<close>

lemma getVideoById_missing:
  assumes "isValidObjectId (params_id req) \<longrightarrow>
             find (\<lambda>v. video_id v = ObjectId (params_id req)) (videoStore s) = None"
  shows "\<not> succeeded (getVideoById e req s)
         \<and> (isValidObjectId (params_id req) \<longrightarrow>
              fst (getVideoById e req s) = Inl (ApiError 404 ''Video not found''))
         \<and> videoStore (snd (getVideoById e req s)) = videoStore s
         \<and> cache (snd (getVideoById e req s)) = cache s
         \<and> filter isInvalidation (trace (snd (getVideoById e req s))) =
             filter isInvalidation (trace s)"
  using assms
  by (auto simp: getVideoById_def Let_def checkCache_def findById_def logEvent_def
      isInvalidation_def succeeded_def)

lemma getRelatedVideos_missing:
  assumes "isValidObjectId (params_id req) \<longrightarrow>
             find (\<lambda>v. video_id v = ObjectId (params_id req)) (videoStore s) = None"
  shows "\<not> succeeded (getRelatedVideos e req s)
         \<and> (isValidObjectId (params_id req) \<longrightarrow>
              fst (getRelatedVideos e req s) = Inl (ApiError 404 ''Video not found''))
         \<and> videoStore (snd (getRelatedVideos e req s)) = videoStore s
         \<and> cache (snd (getRelatedVideos e req s)) = cache s
         \<and> filter isInvalidation (trace (snd (getRelatedVideos e req s))) =
             filter isInvalidation (trace s)"
  using assms
  by (auto simp: getRelatedVideos_def Let_def checkCache_def findById_def logEvent_def
      isInvalidation_def succeeded_def)

lemma deleteVideo_missing:
  assumes "isValidObjectId (params_id req) \<longrightarrow>
             find (\<lambda>v. video_id v = ObjectId (params_id req)) (videoStore s) = None"
  shows "\<not> succeeded (deleteVideo e req s)
         \<and> (isValidObjectId (params_id req) \<longrightarrow>
              fst (deleteVideo e req s) = Inl (ApiError 500 ''Failed to delete video''))
         \<and> videoStore (snd (deleteVideo e req s)) = videoStore s
         \<and> cache (snd (deleteVideo e req s)) = cache s
         \<and> filter isInvalidation (trace (snd (deleteVideo e req s))) =
             filter isInvalidation (trace s)"
  using assms
  by (auto simp: deleteVideo_def Let_def findByIdAndDelete_def logEvent_def
      isInvalidation_def succeeded_def)

lemma updateVideoPublishStatus_missing:
  assumes "isValidObjectId (params_id req) \<longrightarrow>
             find (\<lambda>v. video_id v = ObjectId (params_id req)) (videoStore s) = None"
  shows "\<not> succeeded (updateVideoPublishStatus e req s)
         \<and> (isValidObjectId (params_id req) \<longrightarrow>
              fst (updateVideoPublishStatus e req s) =
                Inl (ApiError 500 ''Failed to update video publish status''))
         \<and> videoStore (snd (updateVideoPublishStatus e req s)) = videoStore s
         \<and> cache (snd (updateVideoPublishStatus e req s)) = cache s
         \<and> filter isInvalidation (trace (snd (updateVideoPublishStatus e req s))) =
             filter isInvalidation (trace s)"
  using assms
  by (auto simp: updateVideoPublishStatus_def Let_def findByIdAndUpdate_def logEvent_def
      isInvalidation_def succeeded_def)

lemma updateVideoById_missing:
  assumes "isValidObjectId (params_id req) \<longrightarrow>
             find (\<lambda>v. video_id v = ObjectId (params_id req)) (videoStore s) = None"
  shows "\<not> succeeded (updateVideoById e req s)
         \<and> (isValidObjectId (params_id req) \<longrightarrow>
              fst (updateVideoById e req s) \<in>
                {Inl (ApiError 400 ''Please provide All required fields''),
                 Inl (ApiError 500 ''Failed to update thumbnail''),
                 Inl (ApiError 500 ''Failed to update video'')})
         \<and> videoStore (snd (updateVideoById e req s)) = videoStore s
         \<and> cache (snd (updateVideoById e req s)) = cache s
         \<and> filter isInvalidation (trace (snd (updateVideoById e req s))) =
             filter isInvalidation (trace s)"
  using assms
  by (auto simp: updateVideoById_def Let_def findByIdAndUpdate_def uploadOnCloudinary_def
      logEvent_def isInvalidation_def succeeded_def
      split: option.splits)

lemma updateVideoById_missing_uploaded:
  assumes "find (\<lambda>v. video_id v = ObjectId (params_id req)) (videoStore s) = None"
    and "isValidObjectId (params_id req)"
    and "\<not> list_all trimsToEmpty
             [body_title (reqBody req), body_description (reqBody req), file_path req]"
    and "file_path req = Some p" and "objectStorage e p = Some th"
    and "response_public_id th \<noteq> []"
  shows "fst (updateVideoById e req s) = Inl (ApiError 500 ''Failed to update video'')"
  using assms
  by (simp add: updateVideoById_def Let_def findByIdAndUpdate_def uploadOnCloudinary_def
      logEvent_def)

text \<open>
  Claim C8, as the code has it. Let the identifier of the route denote no stored record.
  Then the single-item read, the related-videos read, the update by id, the deletion and
  the change of the publication status all fail, and leave the record store and the
  content of the cache as they were, with no invalidation logged. For a well-formed
  identifier the two reads fail with the not-found error (status 404, "Video not found");
  the deletion and the status change fail with status 500 ("Failed to delete video",
  "Failed to update video publish status"), and the update by id with one of its three
  errors of status 400 or 500, never with status 404: with "Failed to update video" once
  its fields were not all empty and the upload of its thumbnail gave an identifier.
\<close>

theorem missing_record_aborts:
  assumes "isValidObjectId (params_id req) \<longrightarrow>
             find (\<lambda>v. video_id v = ObjectId (params_id req)) (videoStore s) = None"
  shows "(\<forall>h \<in> {getVideoById, getRelatedVideos, updateVideoById, deleteVideo,
                 updateVideoPublishStatus}.
            \<not> succeeded (h e req s)
            \<and> videoStore (snd (h e req s)) = videoStore s
            \<and> cache (snd (h e req s)) = cache s
            \<and> filter isInvalidation (trace (snd (h e req s))) = filter isInvalidation (trace s))
         \<and> (isValidObjectId (params_id req) \<longrightarrow>
               fst (getVideoById e req s) = Inl (ApiError 404 ''Video not found'')
             \<and> fst (getRelatedVideos e req s) = Inl (ApiError 404 ''Video not found'')
             \<and> fst (deleteVideo e req s) = Inl (ApiError 500 ''Failed to delete video'')
             \<and> fst (updateVideoPublishStatus e req s) =
                 Inl (ApiError 500 ''Failed to update video publish status'')
             \<and> fst (updateVideoById e req s) \<in>
                 {Inl (ApiError 400 ''Please provide All required fields''),
                  Inl (ApiError 500 ''Failed to update thumbnail''),
                  Inl (ApiError 500 ''Failed to update video'')})
         \<and> (isValidObjectId (params_id req)
               \<and> \<not> list_all trimsToEmpty
                      [body_title (reqBody req), body_description (reqBody req), file_path req]
               \<and> file_path req = Some p \<and> objectStorage e p = Some th
               \<and> response_public_id th \<noteq> [] \<longrightarrow>
               fst (updateVideoById e req s) = Inl (ApiError 500 ''Failed to update video''))"
proof -
  have general: "(\<forall>h \<in> {getVideoById, getRelatedVideos, updateVideoById, deleteVideo,
                 updateVideoPublishStatus}.
            \<not> succeeded (h e req s)
            \<and> videoStore (snd (h e req s)) = videoStore s
            \<and> cache (snd (h e req s)) = cache s
            \<and> filter isInvalidation (trace (snd (h e req s))) = filter isInvalidation (trace s))
         \<and> (isValidObjectId (params_id req) \<longrightarrow>
               fst (getVideoById e req s) = Inl (ApiError 404 ''Video not found'')
             \<and> fst (getRelatedVideos e req s) = Inl (ApiError 404 ''Video not found'')
             \<and> fst (deleteVideo e req s) = Inl (ApiError 500 ''Failed to delete video'')
             \<and> fst (updateVideoPublishStatus e req s) =
                 Inl (ApiError 500 ''Failed to update video publish status'')
             \<and> fst (updateVideoById e req s) \<in>
                 {Inl (ApiError 400 ''Please provide All required fields''),
                  Inl (ApiError 500 ''Failed to update thumbnail''),
                  Inl (ApiError 500 ''Failed to update video'')})"
    using getVideoById_missing [OF assms, of e] getRelatedVideos_missing [OF assms, of e]
      updateVideoById_missing [OF assms, of e] deleteVideo_missing [OF assms, of e]
      updateVideoPublishStatus_missing [OF assms, of e]
    by blast
  have uploaded: "isValidObjectId (params_id req)
               \<and> \<not> list_all trimsToEmpty
                      [body_title (reqBody req), body_description (reqBody req), file_path req]
               \<and> file_path req = Some p \<and> objectStorage e p = Some th
               \<and> response_public_id th \<noteq> [] \<longrightarrow>
               fst (updateVideoById e req s) = Inl (ApiError 500 ''Failed to update video'')"
    using assms by (blast intro: updateVideoById_missing_uploaded)
  from general uploaded show ?thesis
    by (intro conjI) (erule conjunct1, erule conjunct2, assumption)
qed

text \<open>
  The example: no record has the identifier \<open>missingId\<close>. The read answers 404, the
  deletion 500, and the deletion leaves the log without an invalidation.
\<close>

theorem missing_record_aborts_witness:
  "isValidObjectId missingId
   \<and> find (\<lambda>v. video_id v = ObjectId (params_id (exampleRequest [] missingId)))
       (videoStore exampleState) = None
   \<and> fst (getVideoById exampleEnvironment (exampleRequest [] missingId) exampleState) =
       Inl (ApiError 404 ''Video not found'')
   \<and> fst (deleteVideo exampleEnvironment (exampleRequest [] missingId) exampleState) =
       Inl (ApiError 500 ''Failed to delete video'')
   \<and> filter isInvalidation
       (trace (snd (deleteVideo exampleEnvironment (exampleRequest [] missingId) exampleState))) = []
   \<and> fst (updateVideoById exampleEnvironment missingUpdate exampleState) =
       Inl (ApiError 500 ''Failed to update video'')"
proof -
  let ?th = "\<lparr>secure_url = ''cdn/thumb'', response_public_id = ''thumb1'', response_duration = 0\<rparr>"
  have absent: "find (\<lambda>v. video_id v = ObjectId (params_id (exampleRequest [] missingId)))
        (videoStore exampleState) = None"
    by code_simp
  then have hyp: "isValidObjectId (params_id (exampleRequest [] missingId)) \<longrightarrow>
      find (\<lambda>v. video_id v = ObjectId (params_id (exampleRequest [] missingId)))
        (videoStore exampleState) = None"
    by simp
  have valid: "isValidObjectId missingId"
    by code_simp
  have start: "trace exampleState = []"
    by (simp add: exampleState_def)
  have reads: "fst (getVideoById exampleEnvironment (exampleRequest [] missingId) exampleState) =
       Inl (ApiError 404 ''Video not found'')
   \<and> fst (deleteVideo exampleEnvironment (exampleRequest [] missingId) exampleState) =
       Inl (ApiError 500 ''Failed to delete video'')
   \<and> filter isInvalidation
       (trace (snd (deleteVideo exampleEnvironment (exampleRequest [] missingId) exampleState))) = []"
    using missing_record_aborts [OF hyp, of exampleEnvironment] absent valid start
    by (simp add: exampleRequest_def)
  have absent': "isValidObjectId (params_id missingUpdate) \<longrightarrow>
      find (\<lambda>v. video_id v = ObjectId (params_id missingUpdate)) (videoStore exampleState) = None"
    by code_simp
  have valid': "isValidObjectId (params_id missingUpdate)"
    by code_simp
  have fields: "\<not> list_all trimsToEmpty
      [body_title (reqBody missingUpdate), body_description (reqBody missingUpdate),
       file_path missingUpdate]"
    by code_simp
  have path: "file_path missingUpdate = Some ''/tmp/thumb''"
    by (simp add: missingUpdate_def thumbnailUpdate_def)
  have upload: "objectStorage exampleEnvironment ''/tmp/thumb'' = Some ?th"
    by (simp add: exampleEnvironment_def)
  have ident: "response_public_id ?th \<noteq> []"
    by simp
  note update = missing_record_aborts
    [OF absent', of exampleEnvironment "''/tmp/thumb''" ?th,
     THEN conjunct2, THEN conjunct2, rule_format]
  have "fst (updateVideoById exampleEnvironment missingUpdate exampleState) =
      Inl (ApiError 500 ''Failed to update video'')"
    using valid' fields path upload ident by (intro update conjI)
  with valid absent reads show ?thesis
    by (intro conjI) simp_all
qed

text \<open>
  Against the claim as it was stated: the deletion of a record that does not exist fails,
  but not with the not-found error.
\<close>

theorem missing_record_counterexample:
  "ObjectId missingId \<notin> set (map video_id (videoStore exampleState))
   \<and> fst (deleteVideo exampleEnvironment (exampleRequest [] missingId) exampleState) =
       Inl (ApiError 500 ''Failed to delete video'')
   \<and> \<not> isNotFound (fst (deleteVideo exampleEnvironment (exampleRequest [] missingId) exampleState))"
  by code_simp

subsection \<open>Reads and the cache\<close>

text \<open>
  Claim C1, as the code has it. When the owner filter of a listing request passes
  validation and the cache holds an entry under the request's key, \<^verbatim>\<open>getAllVideos\<close>
  answers with status 200 and the stored entry unchanged; the only effect is the cache
  lookup, so no query reaches the record store. Hence a second listing call with the same
  request, in the state the first successful call left, answers with the same reply and
  is served from the cache. The related-videos read is never served from the cache: its
  answer does not depend on what the cache holds, and every successful call queries the
  record store twice.
\<close>

theorem listing_served_from_cache:
  "(listingSearchQuery req = Inr sq
      \<and> cache s (generateCacheKey ''all-videos'' (Params (query req))) = Some r \<longrightarrow>
        getAllVideos e req s =
          (Inr (200, r), logEvent (CacheGet (generateCacheKey ''all-videos'' (Params (query req)))) s)
      \<and> filter isRecordEvent (trace (snd (getAllVideos e req s))) = filter isRecordEvent (trace s))
   \<and> (getAllVideos e req s = (Inr rep, s') \<longrightarrow>
        getAllVideos e req s' =
          (Inr rep, logEvent (CacheGet (generateCacheKey ''all-videos'' (Params (query req)))) s')
      \<and> filter isRecordEvent (trace (snd (getAllVideos e req s'))) = filter isRecordEvent (trace s'))
   \<and> fst (getRelatedVideos e req (s\<lparr>cache := c\<rparr>)) = fst (getRelatedVideos e req s)
   \<and> (succeeded (getRelatedVideos e req s) \<longrightarrow>
        filter isRecordEvent (trace (snd (getRelatedVideos e req s))) =
          filter isRecordEvent (trace s) @ [RecordQuery ''findById'', RecordQuery ''find''])"
proof (intro conjI impI)
  assume "listingSearchQuery req = Inr sq
      \<and> cache s (generateCacheKey ''all-videos'' (Params (query req))) = Some r"
  then have hit: "getAllVideos e req s =
      (Inr (200, r), logEvent (CacheGet (generateCacheKey ''all-videos'' (Params (query req)))) s)"
    by (simp add: getAllVideos_hit)
  then show "getAllVideos e req s =
      (Inr (200, r), logEvent (CacheGet (generateCacheKey ''all-videos'' (Params (query req)))) s)" .
  from hit show "filter isRecordEvent (trace (snd (getAllVideos e req s))) =
      filter isRecordEvent (trace s)"
    by (simp add: logEvent_def isRecordEvent_def)
next
  assume "getAllVideos e req s = (Inr rep, s')"
  then have again: "getAllVideos e req s' =
      (Inr rep, logEvent (CacheGet (generateCacheKey ''all-videos'' (Params (query req)))) s')"
    by (rule getAllVideos_twice)
  then show "getAllVideos e req s' =
      (Inr rep, logEvent (CacheGet (generateCacheKey ''all-videos'' (Params (query req)))) s')" .
  from again show "filter isRecordEvent (trace (snd (getAllVideos e req s'))) =
      filter isRecordEvent (trace s')"
    by (simp add: logEvent_def isRecordEvent_def)
next
  show "fst (getRelatedVideos e req (s\<lparr>cache := c\<rparr>)) = fst (getRelatedVideos e req s)"
    by (rule getRelatedVideos_ignores_cache)
next
  assume "succeeded (getRelatedVideos e req s)"
  then obtain rep' where "getRelatedVideos e req s = (Inr rep', snd (getRelatedVideos e req s))"
    by (rule succeededE)
  from getRelatedVideos_effects [OF this]
  show "filter isRecordEvent (trace (snd (getRelatedVideos e req s))) =
          filter isRecordEvent (trace s) @ [RecordQuery ''findById'', RecordQuery ''find'']"
    by (simp add: isRecordEvent_def)
qed

text \<open>
  The example: the listing without parameters, twice. The first call computes the page and
  stores it; the second finds it and adds nothing but its lookup to the log.
\<close>

theorem listing_served_from_cache_witness:
  "getAllVideos exampleEnvironment (exampleRequest [] []) exampleState =
     (Inr (200, listingResponse examplePage),
      snd (getAllVideos exampleEnvironment (exampleRequest [] []) exampleState))
   \<and> listingSearchQuery (exampleRequest [] []) = Inr (textSearchQuery None)
   \<and> cache (snd (getAllVideos exampleEnvironment (exampleRequest [] []) exampleState))
       (generateCacheKey ''all-videos'' (Params (query (exampleRequest [] [])))) =
       Some (listingResponse examplePage)
   \<and> getAllVideos exampleEnvironment (exampleRequest [] [])
         (snd (getAllVideos exampleEnvironment (exampleRequest [] []) exampleState)) =
       (Inr (200, listingResponse examplePage),
        logEvent (CacheGet (generateCacheKey ''all-videos'' (Params (query (exampleRequest [] [])))))
          (snd (getAllVideos exampleEnvironment (exampleRequest [] []) exampleState)))
   \<and> succeeded (getRelatedVideos exampleEnvironment
                  (exampleRequest [] ''000000000000000000000001'') exampleState)
   \<and> filter isRecordEvent
       (trace (snd (getRelatedVideos exampleEnvironment
                      (exampleRequest [] ''000000000000000000000001'') exampleState))) =
       filter isRecordEvent (trace exampleState) @ [RecordQuery ''findById'', RecordQuery ''find'']"
proof -
  let ?req = "exampleRequest [] []"
  let ?rel = "exampleRequest [] ''000000000000000000000001''"
  let ?s1 = "snd (getAllVideos exampleEnvironment ?req exampleState)"
  let ?key = "generateCacheKey ''all-videos'' (Params (query ?req))"
  have key: "?key = ''all-videos:''"
    by code_simp
  have pair: "getAllVideos exampleEnvironment ?req exampleState =
      (Inr (200, listingResponse examplePage), ?s1)"
    by (simp add: example_listing_run)
  have sq: "listingSearchQuery ?req = Inr (textSearchQuery None)"
    by code_simp
  have stored: "cache ?s1 ?key = Some (listingResponse examplePage)"
    by (simp add: example_listing_run key setCache_def logEvent_def)
  have related: "succeeded (getRelatedVideos exampleEnvironment ?rel exampleState)"
    by code_simp
  note hit = listing_served_from_cache
    [of ?req "textSearchQuery None" ?s1 "listingResponse examplePage" exampleEnvironment,
     THEN conjunct1, rule_format, OF conjI, OF sq stored, THEN conjunct1]
  note rel = listing_served_from_cache
    [of ?rel _ exampleState _ exampleEnvironment,
     THEN conjunct2, THEN conjunct2, THEN conjunct2, rule_format, OF related]
  from pair sq stored hit related rel show ?thesis
    by (intro conjI)
qed

text \<open>
  Against the claim as it was stated. With an entry under its key in the cache, the
  related-videos read does not answer with that entry and queries the record store; and a
  second single-item read of the same record, which finds the entry the first one stored,
  queries the record store again.
\<close>

theorem cached_read_counterexample:
  "cache cachedRelatedState
       (generateCacheKey ''related-videos'' (Ident ''000000000000000000000001'')) =
     Some staleRelated
   \<and> fst (getRelatedVideos exampleEnvironment (exampleRequest [] ''000000000000000000000001'')
            cachedRelatedState) \<noteq> Inr (200, staleRelated)
   \<and> trace (snd (getRelatedVideos exampleEnvironment
                   (exampleRequest [] ''000000000000000000000001'') cachedRelatedState)) =
       [RecordQuery ''findById'', CacheDelete ''related-videos:000000000000000000000001'',
        CacheGet ''related-videos:000000000000000000000001'', RecordQuery ''find'']
   \<and> cache (snd (getVideoById exampleEnvironment (exampleRequest [] ''000000000000000000000001'')
                   exampleState))
       (generateCacheKey ''video'' (Ident ''000000000000000000000001'')) \<noteq> None
   \<and> trace (snd (getVideoById exampleEnvironment (exampleRequest [] ''000000000000000000000001'')
              (snd (getVideoById exampleEnvironment
                      (exampleRequest [] ''000000000000000000000001'') exampleState)))) =
       [CacheGet ''video:000000000000000000000001'', RecordQuery ''findById'',
        CacheSet ''video:000000000000000000000001'',
        CacheGet ''video:000000000000000000000001'', RecordQuery ''findById'',
        CacheSet ''video:000000000000000000000001'']"
  by code_simp

text \<open>
  Claim C3, as the code has it. A listing read that misses the cache and succeeds has
  stored its response under the request's key when it returns, after the lookup and the
  query; a single-item read that succeeds has stored its response under the key of the
  record. The related-videos read stores nothing: when it returns, the cache has no
  entry under its key.
\<close>

theorem read_miss_populates_cache:
  "(cache s (generateCacheKey ''all-videos'' (Params (query req))) = None
      \<and> getAllVideos e req s = (Inr rep, s') \<longrightarrow>
        cache s' (generateCacheKey ''all-videos'' (Params (query req))) = Some (snd rep)
      \<and> trace s' =
          trace s @ [CacheGet (generateCacheKey ''all-videos'' (Params (query req))),
                     RecordQuery ''aggregatePaginate'',
                     CacheSet (generateCacheKey ''all-videos'' (Params (query req)))])
   \<and> (getVideoById e req s = (Inr rep, s') \<longrightarrow>
        cache s' (generateCacheKey ''video'' (Ident (params_id req))) = Some (snd rep)
      \<and> trace s' =
          trace s @ [CacheGet (generateCacheKey ''video'' (Ident (params_id req))),
                     RecordQuery ''findById'',
                     CacheSet (generateCacheKey ''video'' (Ident (params_id req)))])
   \<and> (getRelatedVideos e req s = (Inr rep, s') \<longrightarrow>
        cache s' (generateCacheKey ''related-videos'' (Ident (params_id req))) = None
      \<and> trace s' =
          trace s @ [RecordQuery ''findById'',
                     CacheDelete (generateCacheKey ''related-videos'' (Ident (params_id req))),
                     CacheGet (generateCacheKey ''related-videos'' (Ident (params_id req))),
                     RecordQuery ''find''])"
proof (intro conjI impI)
  assume a: "cache s (generateCacheKey ''all-videos'' (Params (query req))) = None
      \<and> getAllVideos e req s = (Inr rep, s')"
  then obtain r where rep: "rep = (200, listingResponse r)"
    and s': "s' = setCache (listingResponse r) (generateCacheKey ''all-videos'' (Params (query req)))
             (logEvent (RecordQuery ''aggregatePaginate'')
                (logEvent (CacheGet (generateCacheKey ''all-videos'' (Params (query req)))) s))"
    by (blast elim: getAllVideos_miss_Inr)
  show "cache s' (generateCacheKey ''all-videos'' (Params (query req))) = Some (snd rep)"
    using rep s' by (simp add: setCache_def logEvent_def)
  show "trace s' =
          trace s @ [CacheGet (generateCacheKey ''all-videos'' (Params (query req))),
                     RecordQuery ''aggregatePaginate'',
                     CacheSet (generateCacheKey ''all-videos'' (Params (query req)))]"
    using s' by (simp add: setCache_def logEvent_def)
next
  assume "getVideoById e req s = (Inr rep, s')"
  from getVideoById_effects [OF this]
  show "cache s' (generateCacheKey ''video'' (Ident (params_id req))) = Some (snd rep)"
    and "trace s' =
          trace s @ [CacheGet (generateCacheKey ''video'' (Ident (params_id req))),
                     RecordQuery ''findById'',
                     CacheSet (generateCacheKey ''video'' (Ident (params_id req)))]"
    by simp_all
next
  assume "getRelatedVideos e req s = (Inr rep, s')"
  from getRelatedVideos_effects [OF this]
  show "cache s' (generateCacheKey ''related-videos'' (Ident (params_id req))) = None"
    and "trace s' =
          trace s @ [RecordQuery ''findById'',
                     CacheDelete (generateCacheKey ''related-videos'' (Ident (params_id req))),
                     CacheGet (generateCacheKey ''related-videos'' (Ident (params_id req))),
                     RecordQuery ''find'']"
    by simp_all
qed

text \<open>
  The example: on the empty cache the listing without parameters stores its page, and the
  single-item read of the first record stores its response.
\<close>

theorem read_miss_populates_cache_witness:
  "cache exampleState (generateCacheKey ''all-videos'' (Params (query (exampleRequest [] [])))) = None
   \<and> getAllVideos exampleEnvironment (exampleRequest [] []) exampleState =
       (Inr (200, listingResponse examplePage),
        snd (getAllVideos exampleEnvironment (exampleRequest [] []) exampleState))
   \<and> cache (snd (getAllVideos exampleEnvironment (exampleRequest [] []) exampleState))
       (generateCacheKey ''all-videos'' (Params (query (exampleRequest [] [])))) =
       Some (listingResponse examplePage)
   \<and> succeeded (getVideoById exampleEnvironment (exampleRequest [] ''000000000000000000000001'')
                  exampleState)
   \<and> succeeded (getRelatedVideos exampleEnvironment
                  (exampleRequest [] ''000000000000000000000001'') exampleState)"
proof -
  let ?req = "exampleRequest [] []"
  have miss: "cache exampleState (generateCacheKey ''all-videos'' (Params (query ?req))) = None"
    by (simp add: exampleState_def)
  have pair: "getAllVideos exampleEnvironment ?req exampleState =
      (Inr (200, listingResponse examplePage),
       snd (getAllVideos exampleEnvironment ?req exampleState))"
    by (simp add: example_listing_run)
  have others: "succeeded (getVideoById exampleEnvironment
        (exampleRequest [] ''000000000000000000000001'') exampleState)"
    "succeeded (getRelatedVideos exampleEnvironment
        (exampleRequest [] ''000000000000000000000001'') exampleState)"
    by code_simp+
  show ?thesis
    using read_miss_populates_cache [of exampleState ?req exampleEnvironment
        "(200, listingResponse examplePage)"
        "snd (getAllVideos exampleEnvironment ?req exampleState)"]
      miss pair others
    by simp
qed

text \<open>
  Against the claim as it was stated: the related-videos read of the first record misses
  the empty cache, succeeds, and leaves no entry under its key.
\<close>

theorem read_miss_counterexample:
  "cache exampleState
       (generateCacheKey ''related-videos'' (Ident ''000000000000000000000001'')) = None
   \<and> succeeded (getRelatedVideos exampleEnvironment
                  (exampleRequest [] ''000000000000000000000001'') exampleState)
   \<and> cache (snd (getRelatedVideos exampleEnvironment
                   (exampleRequest [] ''000000000000000000000001'') exampleState))
       (generateCacheKey ''related-videos'' (Ident ''000000000000000000000001'')) = None"
  by code_simp

subsection \<open>The filter of the listing\<close>

lemma set_sortStage [simp]: "set (sortStage sq vs) = set vs"
  by (simp add: sortStage_def)

lemma length_sortStage [simp]: "length (sortStage sq vs) = length vs"
  by (simp add: sortStage_def)


lemma length_matchedRecords: "length (matchedRecords us sq m vs) = length (filter m vs)"
  by (simp add: matchedRecords_def)


lemma doc_resolveOwner [simp]: "doc (resolveOwner us c v) = v"
  by (simp add: resolveOwner_def)

lemma aggregatePaginate_Inr:
  assumes "fst (aggregatePaginate e aq opts s) = Inr r"
  obtains m where "compileSearchQuery e (matchStage aq) = Some m"
    and "0 \<le> (effectivePage (fst opts) - 1) * int (effectiveLimit (snd opts))"
    and "r = \<lparr>docs = take (effectiveLimit (snd opts))
                       (drop (nat ((effectivePage (fst opts) - 1) * int (effectiveLimit (snd opts))))
                          (matchedRecords (userStore s) (sortQuery aq) m (videoStore s))),
               totalDocs = length (matchedRecords (userStore s) (sortQuery aq) m (videoStore s)),
               result_totalPages =
                 pageCount (length (matchedRecords (userStore s) (sortQuery aq) m (videoStore s)))
                   (effectiveLimit (snd opts)),
               page = effectivePage (fst opts),
               result_hasNextPage =
                 (effectivePage (fst opts)
                    < int (pageCount (length (matchedRecords (userStore s) (sortQuery aq) m (videoStore s)))
                             (effectiveLimit (snd opts)))),
               result_hasPrevPage = (1 < effectivePage (fst opts))\<rparr>"
  using assms
  by (auto simp: aggregatePaginate_def Let_def logEvent_def split: option.splits if_splits)


lemma compileSearchQuery_published:
  assumes "compileSearchQuery e sq = Some m" "m v"
  shows "isPublished v = sq_isPublished sq"
  using assms by (auto simp: compileSearchQuery_def split: option.splits)




subsection \<open>Pagination\<close>

lemma effectiveLimit_pos: "0 < effectiveLimit l"
  by (simp add: effectiveLimit_def split: option.splits)

lemma ceil_div_gt:
  fixes c L n :: nat
  assumes "0 < L"
  shows "n < (c + L - 1) div L \<longleftrightarrow> n * L < c"
proof -
  have "n < (c + L - 1) div L \<longleftrightarrow> Suc n \<le> (c + L - 1) div L" by auto
  also have "\<dots> \<longleftrightarrow> Suc n * L \<le> c + L - 1"
    using assms by (simp add: less_eq_div_iff_mult_less_eq)
  also have "\<dots> \<longleftrightarrow> n * L < c"
    using assms by auto
  finally show ?thesis .
qed

lemma pageCount_covers:
  assumes "0 < L"
  shows "c \<le> pageCount c L * L"
proof -
  have "\<not> (c + L - 1) div L * L < c"
    using ceil_div_gt [OF assms, of "(c + L - 1) div L" c] by simp
  then have "c \<le> (c + L - 1) div L * L" by simp
  also have "\<dots> \<le> pageCount c L * L"
    by (simp add: pageCount_def)
  finally show ?thesis .
qed

lemma pageCount_next:
  assumes "0 < L" "1 \<le> P"
  shows "P < int (pageCount c L) \<longleftrightarrow> P * int L < int c"
proof -
  define n where "n = nat P"
  have P: "P = int n" and n: "1 \<le> n"
    using assms(2) by (simp_all add: n_def)
  have "n < pageCount c L \<longleftrightarrow> n < (c + L - 1) div L"
    using n by (auto simp: pageCount_def)
  also have "\<dots> \<longleftrightarrow> n * L < c"
    using assms(1) by (rule ceil_div_gt)
  finally have "int n < int (pageCount c L) \<longleftrightarrow> int (n * L) < int c"
    by (simp only: of_nat_less_iff)
  then show ?thesis
    using P by simp
qed

lemma concat_pages:
  "concat (map (\<lambda>p. take L (drop ((p - 1) * L) xs)) [1..<Suc n]) = take (n * L) xs"
proof (induction n)
  case 0
  then show ?case by simp
next
  case (Suc n)
  have "take (n * L) xs @ take L (drop (n * L) xs) = take (n * L + L) xs"
    by (simp add: take_add)
  with Suc show ?case
    by (simp add: add.commute)
qed

lemma first_page_positive:
  assumes "0 \<le> (P - 1) * int L" "0 < L"
  shows "1 \<le> P"
proof (rule ccontr)
  assume "\<not> 1 \<le> P"
  then have "P - 1 < 0" by simp
  with assms(2) have "(P - 1) * int L < 0"
    by (simp add: mult_less_0_iff)
  with assms(1) show False by simp
qed

declare decimal.simps [simp del]

lemma of_char_decimalDigit:
  assumes "d < 10"
  shows "(of_char (decimalDigit d) :: nat) = 48 + d"
  using assms by (simp add: decimalDigit_def)

lemma isDigit_decimalDigit: "d < 10 \<Longrightarrow> isDigit (decimalDigit d)"
  by (simp add: isDigit_def of_char_decimalDigit)

lemma digit_not_space: "isDigit c \<Longrightarrow> \<not> isSpace c"
  by (auto simp: isDigit_def isSpace_def)

lemma digit_not_sign:
  assumes "isDigit c"
  shows "c \<noteq> CHR ''-''" and "c \<noteq> CHR ''+''"
  using assms by (auto simp: isDigit_def)

lemma decimal_digits: "list_all isDigit (decimal n) \<and> decimal n \<noteq> []"
proof (induction n rule: decimal.induct)
  case (1 n)
  then show ?case
    by (subst (1 2) decimal.simps) (simp add: isDigit_decimalDigit)
qed

lemma digitsValue_snoc: "digitsValue (ds @ [c]) = 10 * digitsValue ds + (int (of_char c) - 48)"
  by (simp add: digitsValue_def)

lemma digitsValue_decimal: "digitsValue (decimal n) = int n"
proof (induction n rule: decimal.induct)
  case (1 n)
  show ?case
  proof (cases "n < 10")
    case True
    then show ?thesis
      by (subst decimal.simps) (simp add: digitsValue_def of_char_decimalDigit)
  next
    case False
    with 1 have "digitsValue (decimal (n div 10)) = int (n div 10)" by simp
    moreover have "10 * int (n div 10) + int (n mod 10) = int n"
      by (simp add: zdiv_int zmod_int)
    ultimately show ?thesis
      using False by (subst decimal.simps) (simp add: digitsValue_snoc of_char_decimalDigit)
  qed
qed

text \<open>\<^verbatim>\<open>parseInt\<close> reads the decimal text of a number back as that number.\<close>

lemma parseInt_decimal: "parseInt (decimal n) = Some (int n)"
proof -
  obtain c cs where d: "decimal n = c # cs"
    using decimal_digits [of n] by (cases "decimal n") auto
  have all: "list_all isDigit (c # cs)"
    using decimal_digits [of n] d by simp
  then have c: "isDigit c" by simp
  have whole: "takeWhile isDigit (c # cs) = c # cs"
    using all by (simp add: list_all_iff takeWhile_eq_all_conv del: takeWhile.simps)
  have "parseDigits (c # cs) = Some (digitsValue (c # cs))"
    unfolding parseDigits_def Let_def whole by simp
  then have "parseInt (c # cs) = Some (digitsValue (c # cs))"
    using c by (simp add: parseInt_def digit_not_space digit_not_sign)
  then show ?thesis
    using digitsValue_decimal [of n] d by simp
qed

lemma map_of_without_page:
  assumes "k \<noteq> ''page''"
  shows "map_of (filter (\<lambda>nv. fst nv \<noteq> ''page'') qs) k = map_of qs k"
  using assms by (induction qs) auto

lemma pageRequest_page: "map_of (query (pageRequest req p)) ''page'' = Some (decimal p)"
  by (simp add: pageRequest_def)

lemma pageRequest_other:
  assumes "k \<noteq> ''page''"
  shows "map_of (query (pageRequest req p)) k = map_of (query req) k"
  using assms by (simp add: pageRequest_def map_of_without_page)

lemma pageRequest_searchQuery: "listingSearchQuery (pageRequest req p) = listingSearchQuery req"
  by (simp add: listingSearchQuery_def pageRequest_other)

lemma pageRequest_sortQuery: "listingSortQuery (pageRequest req p) = listingSortQuery req"
  by (simp add: listingSortQuery_def pageRequest_other)

lemma pageRequest_options:
  "listingOptions (pageRequest req p) =
     (Some (int p), parseInt (withDefault ''10'' (map_of (query req) ''limit'')))"
  by (simp add: listingOptions_def pageRequest_other pageRequest_page withDefault_def
      parseInt_decimal)

lemma aggregatePaginate_page:
  assumes "compileSearchQuery e (matchStage aq) = Some m" and "1 \<le> p"
  shows "fst (aggregatePaginate e aq (Some (int p), l) s) =
           Inr \<lparr>docs = take (effectiveLimit l)
                          (drop ((p - 1) * effectiveLimit l)
                             (matchedRecords (userStore s) (sortQuery aq) m (videoStore s))),
                 totalDocs = length (matchedRecords (userStore s) (sortQuery aq) m (videoStore s)),
                 result_totalPages =
                   pageCount (length (matchedRecords (userStore s) (sortQuery aq) m (videoStore s)))
                     (effectiveLimit l),
                 page = int p,
                 result_hasNextPage =
                   (p * effectiveLimit l
                      < length (matchedRecords (userStore s) (sortQuery aq) m (videoStore s))),
                 result_hasPrevPage = (1 < p)\<rparr>"
proof -
  have page: "effectivePage (Some (int p)) = int p"
    using assms(2) by (simp add: effectivePage_def)
  have skip: "(int p - 1) * int (effectiveLimit l) = int ((p - 1) * effectiveLimit l)"
    using assms(2) by (simp add: of_nat_diff)
  have "int p < int (pageCount (length (matchedRecords (userStore s) (sortQuery aq) m (videoStore s)))
                       (effectiveLimit l))
        \<longleftrightarrow> int p * int (effectiveLimit l)
              < int (length (matchedRecords (userStore s) (sortQuery aq) m (videoStore s)))"
    using assms(2) by (intro pageCount_next effectiveLimit_pos) simp
  then have "p < pageCount (length (matchedRecords (userStore s) (sortQuery aq) m (videoStore s)))
                       (effectiveLimit l)
        \<longleftrightarrow> p * effectiveLimit l
              < length (matchedRecords (userStore s) (sortQuery aq) m (videoStore s))"
    by (simp only: of_nat_less_iff of_nat_mult [symmetric])
  then show ?thesis
    using assms(1)
    by (simp add: aggregatePaginate_def Let_def page skip logEvent_def del: of_nat_mult)
qed

text \<open>The handler on the request for page \<open>p\<close>: the \<open>p\<close>-th slice of the result set.\<close>

lemma getAllVideos_page:
  assumes "listingSearchQuery req = Inr sq" and "compileSearchQuery e sq = Some m"
    and "1 \<le> p"
    and "cache s (generateCacheKey ''all-videos'' (Params (query (pageRequest req p)))) = None"
  shows "fst (getAllVideos e (pageRequest req p) s) =
           Inr (200, listingResponse
                  \<lparr>docs = take (effectiveLimit (parseInt (withDefault ''10'' (map_of (query req) ''limit''))))
                            (drop ((p - 1) * effectiveLimit (parseInt (withDefault ''10'' (map_of (query req) ''limit''))))
                               (matchedRecords (userStore s) (listingSortQuery req) m (videoStore s))),
                   totalDocs =
                     length (matchedRecords (userStore s) (listingSortQuery req) m (videoStore s)),
                   result_totalPages =
                     pageCount
                       (length (matchedRecords (userStore s) (listingSortQuery req) m (videoStore s)))
                       (effectiveLimit (parseInt (withDefault ''10'' (map_of (query req) ''limit'')))),
                   page = int p,
                   result_hasNextPage =
                     (p * effectiveLimit (parseInt (withDefault ''10'' (map_of (query req) ''limit'')))
                        < length (matchedRecords (userStore s) (listingSortQuery req) m (videoStore s))),
                   result_hasPrevPage = (1 < p)\<rparr>)"
proof -
  have sq: "listingSearchQuery (pageRequest req p) = Inr sq"
    using assms(1) by (simp add: pageRequest_searchQuery)
  have m: "compileSearchQuery e
             (matchStage \<lparr>matchStage = sq, sortQuery = listingSortQuery (pageRequest req p)\<rparr>) = Some m"
    using assms(2) by simp
  note page = aggregatePaginate_page [OF m assms(3),
      of "parseInt (withDefault ''10'' (map_of (query req) ''limit''))" s]
  have "fst (aggregatePaginate e \<lparr>matchStage = sq, sortQuery = listingSortQuery (pageRequest req p)\<rparr>
               (listingOptions (pageRequest req p)) s) =
        Inr \<lparr>docs = take (effectiveLimit (parseInt (withDefault ''10'' (map_of (query req) ''limit''))))
                      (drop ((p - 1) * effectiveLimit (parseInt (withDefault ''10'' (map_of (query req) ''limit''))))
                         (matchedRecords (userStore s) (listingSortQuery req) m (videoStore s))),
              totalDocs =
                length (matchedRecords (userStore s) (listingSortQuery req) m (videoStore s)),
              result_totalPages =
                pageCount
                  (length (matchedRecords (userStore s) (listingSortQuery req) m (videoStore s)))
                  (effectiveLimit (parseInt (withDefault ''10'' (map_of (query req) ''limit'')))),
              page = int p,
              result_hasNextPage =
                (p * effectiveLimit (parseInt (withDefault ''10'' (map_of (query req) ''limit'')))
                   < length (matchedRecords (userStore s) (listingSortQuery req) m (videoStore s))),
              result_hasPrevPage = (1 < p)\<rparr>"
    using page by (simp add: pageRequest_options pageRequest_sortQuery)
  from getAllVideos_miss_result [OF sq assms(4) this] show ?thesis
    by simp
qed

lemma responseVideos_page:
  assumes "listingSearchQuery req = Inr sq" and "compileSearchQuery e sq = Some m"
    and "1 \<le> p"
    and "cache s (generateCacheKey ''all-videos'' (Params (query (pageRequest req p)))) = None"
  shows "responseVideos (getAllVideos e (pageRequest req p) s) =
           take (effectiveLimit (parseInt (withDefault ''10'' (map_of (query req) ''limit''))))
             (drop ((p - 1) * effectiveLimit (parseInt (withDefault ''10'' (map_of (query req) ''limit''))))
                (matchedRecords (userStore s) (listingSortQuery req) m (videoStore s)))"
  using getAllVideos_page [OF assms]
  by (simp add: responseVideos_def listingResponse_def ApiResponse_def)

text \<open>
  Claim C7. Let a listing request miss the cache and succeed on a state. With \<open>full\<close> the
  records the filter admits, sorted and joined, \<open>L\<close> the limit the request's \<^verbatim>\<open>limit\<close>
  parameter reads as (10 when it is missing or no positive number) and the page the
  number its \<^verbatim>\<open>page\<close> parameter reads as (1 when it is missing, no number or 0): the total
  count is the length of \<open>full\<close>, counted before pagination; the page is at least 1 and
  holds the \<open>L\<close> records of \<open>full\<close> after the first \<open>(page - 1) * L\<close>; has-next is true
  exactly when \<open>page * L\<close> is less than the total. The same request asked for page \<open>p\<close>, on
  the same data and a cache without its key, is answered by the handler with page \<open>p\<close>,
  the \<open>L\<close> records after the first \<open>(p - 1) * L\<close>, and has-next exactly when \<open>p * L\<close> is less
  than the total; and the handler's answers for the pages 1 to the last concatenate to
  \<open>full\<close>: no record twice, none missing.
\<close>

theorem listing_pagination:
  assumes "cache s (generateCacheKey ''all-videos'' (Params (query req))) = None"
    and "getAllVideos e req s = (Inr rep, s')"
  shows "\<exists>sq m pr full L.
           listingSearchQuery req = Inr sq \<and> compileSearchQuery e sq = Some m
         \<and> data (snd rep) = PageData pr
         \<and> L = effectiveLimit (parseInt (withDefault ''10'' (map_of (query req) ''limit'')))
         \<and> 0 < L
         \<and> full = matchedRecords (userStore s) (listingSortQuery req) m (videoStore s)
         \<and> totalVideos pr = length full
         \<and> totalVideos pr = length (filter m (videoStore s))
         \<and> currentPage pr = effectivePage (parseInt (withDefault ''1'' (map_of (query req) ''page'')))
         \<and> 1 \<le> currentPage pr
         \<and> videos pr = take L (drop ((nat (currentPage pr) - 1) * L) full)
         \<and> (hasNextPage pr \<longleftrightarrow> currentPage pr * int L < int (totalVideos pr))
         \<and> (hasPrevPage pr \<longleftrightarrow> 1 < currentPage pr)
         \<and> totalPages pr = pageCount (totalVideos pr) L
         \<and> (\<forall>p. 1 \<le> p
                 \<and> cache s (generateCacheKey ''all-videos'' (Params (query (pageRequest req p)))) = None
               \<longrightarrow> fst (getAllVideos e (pageRequest req p) s) =
                     Inr (200, listingResponse
                            \<lparr>docs = take L (drop ((p - 1) * L) full),
                             totalDocs = length full,
                             result_totalPages = pageCount (length full) L,
                             page = int p,
                             result_hasNextPage = (p * L < length full),
                             result_hasPrevPage = (1 < p)\<rparr>))
         \<and> ((\<forall>p. cache s (generateCacheKey ''all-videos'' (Params (query (pageRequest req p)))) = None)
               \<longrightarrow> concat (map (\<lambda>p. responseVideos (getAllVideos e (pageRequest req p) s))
                             [1..<Suc (totalPages pr)]) = full)"
proof -
  let ?sort = "listingSortQuery req"
  let ?L = "effectiveLimit (parseInt (withDefault ''10'' (map_of (query req) ''limit'')))"
  let ?P = "effectivePage (parseInt (withDefault ''1'' (map_of (query req) ''page'')))"
  let ?key = "\<lambda>p. generateCacheKey ''all-videos'' (Params (query (pageRequest req p)))"
  have opts: "listingOptions req =
      (parseInt (withDefault ''1'' (map_of (query req) ''page'')),
       parseInt (withDefault ''10'' (map_of (query req) ''limit'')))"
    by (simp add: listingOptions_def)
  from assms obtain sq r where sq: "listingSearchQuery req = Inr sq"
    and ap: "fst (aggregatePaginate e \<lparr>matchStage = sq, sortQuery = ?sort\<rparr>
                (listingOptions req) s) = Inr r"
    and rep: "rep = (200, listingResponse r)"
    by (rule getAllVideos_miss_Inr)
  from ap obtain m where m: "compileSearchQuery e sq = Some m"
    and skip: "0 \<le> (?P - 1) * int ?L"
    and r: "r = \<lparr>docs = take ?L (drop (nat ((?P - 1) * int ?L))
                          (matchedRecords (userStore s) ?sort m (videoStore s))),
               totalDocs = length (matchedRecords (userStore s) ?sort m (videoStore s)),
               result_totalPages =
                 pageCount (length (matchedRecords (userStore s) ?sort m (videoStore s))) ?L,
               page = ?P,
               result_hasNextPage =
                 (?P < int (pageCount (length (matchedRecords (userStore s) ?sort m (videoStore s))) ?L)),
               result_hasPrevPage = (1 < ?P)\<rparr>"
    by (rule aggregatePaginate_Inr) (simp add: opts)
  let ?full = "matchedRecords (userStore s) ?sort m (videoStore s)"
  let ?pr = "\<lparr>videos = docs r, totalVideos = totalDocs r, totalPages = result_totalPages r,
              currentPage = page r, hasNextPage = result_hasNextPage r,
              hasPrevPage = result_hasPrevPage r\<rparr>"
  have L: "0 < ?L" by (rule effectiveLimit_pos)
  have P: "1 \<le> ?P" using skip L by (rule first_page_positive)
  have data: "data (snd rep) = PageData ?pr"
    using rep by (simp add: listingResponse_def ApiResponse_def)
  have slice: "nat ((?P - 1) * int ?L) = (nat ?P - 1) * ?L"
    using P by (simp add: nat_mult_distrib nat_diff_distrib)
  have videos: "videos ?pr = take ?L (drop ((nat (currentPage ?pr) - 1) * ?L) ?full)"
    using r slice by simp
  have next_page: "hasNextPage ?pr \<longleftrightarrow> currentPage ?pr * int ?L < int (totalVideos ?pr)"
    using r pageCount_next [OF L P, of "length ?full"] by simp
  have each: "\<forall>p. 1 \<le> p \<and> cache s (?key p) = None
               \<longrightarrow> fst (getAllVideos e (pageRequest req p) s) =
                     Inr (200, listingResponse
                            \<lparr>docs = take ?L (drop ((p - 1) * ?L) ?full),
                             totalDocs = length ?full,
                             result_totalPages = pageCount (length ?full) ?L,
                             page = int p,
                             result_hasNextPage = (p * ?L < length ?full),
                             result_hasPrevPage = (1 < p)\<rparr>)"
    using getAllVideos_page [OF sq m] by blast
  have all: "(\<forall>p. cache s (?key p) = None)
               \<longrightarrow> concat (map (\<lambda>p. responseVideos (getAllVideos e (pageRequest req p) s))
                             [1..<Suc (totalPages ?pr)]) = ?full"
  proof
    assume miss: "\<forall>p. cache s (?key p) = None"
    have "map (\<lambda>p. responseVideos (getAllVideos e (pageRequest req p) s))
            [1..<Suc (totalPages ?pr)] =
          map (\<lambda>p. take ?L (drop ((p - 1) * ?L) ?full)) [1..<Suc (totalPages ?pr)]"
    proof (rule map_cong [OF refl])
      fix p assume "p \<in> set [1..<Suc (totalPages ?pr)]"
      then have "1 \<le> p" by (simp only: set_upt atLeastLessThan_iff)
      moreover have "cache s (?key p) = None" using miss by blast
      ultimately show "responseVideos (getAllVideos e (pageRequest req p) s) =
          take ?L (drop ((p - 1) * ?L) ?full)"
        by (rule responseVideos_page [OF sq m])
    qed
    then have "concat (map (\<lambda>p. responseVideos (getAllVideos e (pageRequest req p) s))
                     [1..<Suc (totalPages ?pr)]) = take (totalPages ?pr * ?L) ?full"
      by (simp only: concat_pages)
    moreover have "length ?full \<le> totalPages ?pr * ?L"
      using r pageCount_covers [OF L, of "length ?full"] by simp
    ultimately show "concat (map (\<lambda>p. responseVideos (getAllVideos e (pageRequest req p) s))
                     [1..<Suc (totalPages ?pr)]) = ?full"
      by simp
  qed
  have rest: "totalVideos ?pr = length ?full" "totalVideos ?pr = length (filter m (videoStore s))"
    "currentPage ?pr = ?P" "1 \<le> currentPage ?pr" "hasPrevPage ?pr \<longleftrightarrow> 1 < currentPage ?pr"
    "totalPages ?pr = pageCount (totalVideos ?pr) ?L"
    using r P by (simp_all add: length_matchedRecords)
  show ?thesis
    apply (rule exI [of _ sq], rule exI [of _ m], rule exI [of _ ?pr], rule exI [of _ ?full],
        rule exI [of _ ?L])
    using sq m data L videos next_page each all rest
    apply (intro conjI)
    apply (assumption | rule refl)+
    done
qed

text \<open>
  The example: the two published records, one to a page, oldest first. Page 2 of 2 is the
  second record, after one record skipped; it has a previous page and no next page, and
  the handler's pages 1 and 2 together are the two records in order.
\<close>

theorem listing_pagination_witness:
  "cache exampleState
       (generateCacheKey ''all-videos''
          (Params (query (exampleRequest
                            [(''page'', ''2''), (''limit'', ''1''), (''sortType'', ''asc'')] [])))) = None
   \<and> getAllVideos exampleEnvironment
         (exampleRequest [(''page'', ''2''), (''limit'', ''1''), (''sortType'', ''asc'')] [])
         exampleState =
       (Inr (200, listingResponse
                    \<lparr>docs = [resolveOwner [alice] True dogsVideo], totalDocs = 2,
                     result_totalPages = 2, page = 2, result_hasNextPage = False,
                     result_hasPrevPage = True\<rparr>),
        snd (getAllVideos exampleEnvironment
               (exampleRequest [(''page'', ''2''), (''limit'', ''1''), (''sortType'', ''asc'')] [])
               exampleState))
   \<and> (\<exists>pr. data (listingResponse
                    \<lparr>docs = [resolveOwner [alice] True dogsVideo], totalDocs = 2,
                     result_totalPages = 2, page = 2, result_hasNextPage = False,
                     result_hasPrevPage = True\<rparr>) = PageData pr
          \<and> currentPage pr = 2
          \<and> videos pr =
              take 1 (drop ((nat (currentPage pr) - 1) * 1)
                        [resolveOwner [alice] True catsVideo, resolveOwner [alice] True dogsVideo])
          \<and> (hasNextPage pr \<longleftrightarrow> currentPage pr * int 1 < int (totalVideos pr))
          \<and> concat (map (\<lambda>p. responseVideos
                                 (getAllVideos exampleEnvironment
                                    (pageRequest
                                       (exampleRequest
                                          [(''page'', ''2''), (''limit'', ''1''),
                                           (''sortType'', ''asc'')] []) p)
                                    exampleState))
                      [1..<Suc (totalPages pr)]) =
              [resolveOwner [alice] True catsVideo, resolveOwner [alice] True dogsVideo])"
proof -
  let ?req = "exampleRequest [(''page'', ''2''), (''limit'', ''1''), (''sortType'', ''asc'')] []"
  let ?r = "\<lparr>docs = [resolveOwner [alice] True dogsVideo], totalDocs = 2,
             result_totalPages = 2, page = 2, result_hasNextPage = False,
             result_hasPrevPage = True\<rparr>"
  let ?all = "[resolveOwner [alice] True catsVideo, resolveOwner [alice] True dogsVideo]"
  have miss: "cache exampleState (generateCacheKey ''all-videos'' (Params (query ?req))) = None"
    by (simp add: exampleState_def)
  have sq: "listingSearchQuery ?req = Inr (textSearchQuery None)"
    by code_simp
  have page: "fst (aggregatePaginate exampleEnvironment
                 \<lparr>matchStage = textSearchQuery None, sortQuery = listingSortQuery ?req\<rparr>
                 (listingOptions ?req) exampleState) = Inr ?r"
    by code_simp
  have pair: "getAllVideos exampleEnvironment ?req exampleState =
      (Inr (200, listingResponse ?r), snd (getAllVideos exampleEnvironment ?req exampleState))"
    by (simp add: getAllVideos_miss_result [OF sq miss page])
  have every: "\<forall>p. cache exampleState
      (generateCacheKey ''all-videos'' (Params (query (pageRequest ?req p)))) = None"
    by (simp add: exampleState_def)
  have limit: "effectiveLimit (parseInt (withDefault ''10'' (map_of (query ?req) ''limit''))) = 1"
    by code_simp
  have number: "effectivePage (parseInt (withDefault ''1'' (map_of (query ?req) ''page''))) = 2"
    by code_simp
  have sort: "listingSortQuery ?req = (''createdAt'', 1)"
    by code_simp
  have filter: "compileSearchQuery exampleEnvironment (textSearchQuery None) =
      Some (\<lambda>v. isPublished v)"
    by (simp add: compileSearchQuery_def textSearchQuery_def)
  have records: "matchedRecords (userStore exampleState) (''createdAt'', 1) (\<lambda>v. isPublished v)
      (videoStore exampleState) = ?all"
    by code_simp
  from listing_pagination [OF miss pair] obtain sq' m pr full L
    where sq': "listingSearchQuery ?req = Inr sq'"
      and m: "compileSearchQuery exampleEnvironment sq' = Some m"
      and pr: "data (snd (200 :: nat, listingResponse ?r)) = PageData pr"
      and L: "L = effectiveLimit (parseInt (withDefault ''10'' (map_of (query ?req) ''limit'')))"
      and full: "full = matchedRecords (userStore exampleState) (listingSortQuery ?req) m
                          (videoStore exampleState)"
      and current: "currentPage pr =
                      effectivePage (parseInt (withDefault ''1'' (map_of (query ?req) ''page'')))"
      and slice: "videos pr = take L (drop ((nat (currentPage pr) - 1) * L) full)"
      and more: "hasNextPage pr \<longleftrightarrow> currentPage pr * int L < int (totalVideos pr)"
      and pages: "(\<forall>p. cache exampleState
                         (generateCacheKey ''all-videos'' (Params (query (pageRequest ?req p)))) = None)
                  \<longrightarrow> concat (map (\<lambda>p. responseVideos
                                         (getAllVideos exampleEnvironment (pageRequest ?req p)
                                            exampleState))
                                [1..<Suc (totalPages pr)]) = full"
    by blast
  have "sq' = textSearchQuery None"
    using sq sq' by simp
  with m filter have "m = (\<lambda>v. isPublished v)"
    by simp
  with full sort records have full': "full = ?all"
    by simp
  have L': "L = 1"
    using L limit by simp
  have "data (listingResponse ?r) = PageData pr"
    using pr by simp
  moreover have "currentPage pr = 2"
    using current number by simp
  moreover have "videos pr = take 1 (drop ((nat (currentPage pr) - 1) * 1) ?all)"
    using slice unfolding L' full' .
  moreover have "hasNextPage pr \<longleftrightarrow> currentPage pr * int 1 < int (totalVideos pr)"
    using more unfolding L' .
  moreover have "concat (map (\<lambda>p. responseVideos
                                 (getAllVideos exampleEnvironment (pageRequest ?req p) exampleState))
                      [1..<Suc (totalPages pr)]) = ?all"
    using pages every unfolding full' by blast
  ultimately have "\<exists>pr. data (listingResponse ?r) = PageData pr
          \<and> currentPage pr = 2
          \<and> videos pr = take 1 (drop ((nat (currentPage pr) - 1) * 1) ?all)
          \<and> (hasNextPage pr \<longleftrightarrow> currentPage pr * int 1 < int (totalVideos pr))
          \<and> concat (map (\<lambda>p. responseVideos
                                 (getAllVideos exampleEnvironment (pageRequest ?req p) exampleState))
                      [1..<Suc (totalPages pr)]) = ?all"
    by blast
  with miss pair show ?thesis
    by (intro conjI)
qed

subsection \<open>Cache keys\<close>

lemma sort_key_fst_unique:
  assumes "distinct (map fst xs)" and "distinct (map fst ys)" and "set xs = set ys"
  shows "sort_key fst xs = sort_key fst ys"
proof (rule sort_key_inj_key_eq)
  have "distinct xs" "distinct ys"
    using assms(1,2) by (simp_all add: distinct_map)
  then have "mset xs = mset ys"
    using assms(3) by (simp add: set_eq_iff_mset_eq_distinct)
  then show "mset xs = mset (sort_key fst ys)"
    by simp
  show "inj_on fst (set xs)"
    using assms(1) by (simp add: distinct_map)
  show "sorted (map fst (sort_key fst ys))"
    by simp
qed

lemma default_page: "isDefaultParam (''page'', ''1'')"
  by (simp add: isDefaultParam_def defaultParams_def)

text \<open>
  Claim C4. The key is a function of the kind and the parameters alone. Two parameter
  mappings (lists of name/value pairs with no name twice) that hold the same pairs, in
  whatever order, give the same key; and a mapping with \<open>page = 1\<close> written out, at any
  place, gives the key of the mapping without it.
\<close>

theorem cache_key_order_insensitive:
  "(distinct (map fst p1) \<and> distinct (map fst p2) \<and> set p1 = set p2 \<longrightarrow>
      generateCacheKey kind (Params p1) = generateCacheKey kind (Params p2))
   \<and> generateCacheKey kind (Params (p @ (''page'', ''1'') # p')) =
       generateCacheKey kind (Params (p @ p'))"
proof (intro conjI impI)
  assume a: "distinct (map fst p1) \<and> distinct (map fst p2) \<and> set p1 = set p2"
  let ?keep = "\<lambda>nv. \<not> isDefaultParam nv"
  have "sort_key fst (filter ?keep p1) = sort_key fst (filter ?keep p2)"
    using a by (intro sort_key_fst_unique) (simp_all add: distinct_map_filter)
  then show "generateCacheKey kind (Params p1) = generateCacheKey kind (Params p2)"
    by (simp add: generateCacheKey_def)
next
  show "generateCacheKey kind (Params (p @ (''page'', ''1'') # p')) =
       generateCacheKey kind (Params (p @ p'))"
    by (simp add: generateCacheKey_def default_page)
qed

text \<open>
  The example: a query and a limit in either order, and the same with \<open>page = 1\<close> in front,
  all key as \<open>all-videos:limit=5&q=cats\<close>.
\<close>

theorem cache_key_order_insensitive_witness:
  "distinct (map fst [(''q'', ''cats''), (''limit'', ''5'')])
   \<and> distinct (map fst [(''limit'', ''5''), (''q'', ''cats'')])
   \<and> set [(''q'', ''cats''), (''limit'', ''5'')] = set [(''limit'', ''5''), (''q'', ''cats'')]
   \<and> generateCacheKey ''all-videos'' (Params [(''q'', ''cats''), (''limit'', ''5'')]) =
       generateCacheKey ''all-videos'' (Params [(''limit'', ''5''), (''q'', ''cats'')])
   \<and> generateCacheKey ''all-videos'' (Params [(''page'', ''1''), (''q'', ''cats''), (''limit'', ''5'')]) =
       ''all-videos:limit=5&q=cats''"
proof -
  have names: "distinct (map fst [(''q'', ''cats''), (''limit'', ''5'')])"
    "distinct (map fst [(''limit'', ''5''), (''q'', ''cats'')])"
    by simp_all
  have pairs: "set [(''q'', ''cats''), (''limit'', ''5'')] = set [(''limit'', ''5''), (''q'', ''cats'')]"
    by auto
  have key: "generateCacheKey ''all-videos'' (Params [(''q'', ''cats''), (''limit'', ''5'')]) =
      ''all-videos:limit=5&q=cats''"
    by code_simp
  show ?thesis
    using cache_key_order_insensitive [of "[(''q'', ''cats''), (''limit'', ''5'')]"
        "[(''limit'', ''5''), (''q'', ''cats'')]" "''all-videos''" "[]"
        "[(''q'', ''cats''), (''limit'', ''5'')]"]
      names pairs key
    by simp
qed

subsection \<open>The text search\<close>

lemma literal_not_dot:
  assumes "c \<notin> set regexOperators"
  shows "c \<noteq> CHR ''.''"
  using assms by (auto simp: regexOperators_def)

lemma matchHere_literal:
  assumes "isLiteralPattern p"
  shows "matchHere p s \<longleftrightarrow> prefix (toLowerCase p) (toLowerCase s)"
  using assms
proof (induction p s rule: matchHere.induct)
  case (1 s)
  then show ?case by (simp add: toLowerCase_def)
next
  case (2 p ps)
  then show ?case by (simp add: toLowerCase_def)
next
  case (3 p ps c cs)
  then have "p \<noteq> CHR ''.''" and "isLiteralPattern ps"
    by (auto simp: isLiteralPattern_def dest: literal_not_dot)
  with 3 show ?case
    by (auto simp: toLowerCase_def patternCharMatches_def)
qed

lemma searchPattern_literal:
  assumes "isLiteralPattern p"
  shows "searchPattern p s \<longleftrightarrow> sublist (toLowerCase p) (toLowerCase s)"
proof (induction s)
  case Nil
  show ?case
    using matchHere_literal [OF assms, of "[]"] by (simp add: toLowerCase_def)
next
  case (Cons c cs)
  have "sublist (toLowerCase p) (toLowerCase (c # cs)) \<longleftrightarrow>
      prefix (toLowerCase p) (toLowerCase (c # cs)) \<or> sublist (toLowerCase p) (toLowerCase cs)"
    by (simp add: toLowerCase_def sublist_Cons_right)
  with Cons show ?case
    by (simp add: matchHere_literal [OF assms])
qed

lemma literal_is_simple: "isLiteralPattern p \<Longrightarrow> isSimplePattern p"
  by (induction p) (simp_all add: isLiteralPattern_def isSimplePattern_def)

lemma listingSearchQuery_text:
  assumes "map_of (query req) ''userId'' = None \<or> map_of (query req) ''userId'' = Some []"
  shows "listingSearchQuery req = Inr (textSearchQuery (map_of (query req) ''q''))"
  using assms by (auto simp: listingSearchQuery_def ownerSearchQuery_def)

lemma compile_text_absent:
  assumes "q = None \<or> q = Some []"
  shows "compileSearchQuery e (textSearchQuery q) = Some (\<lambda>v. isPublished v)"
  using assms by (auto simp: compileSearchQuery_def textSearchQuery_def)

lemma compile_text_present:
  assumes "qs \<noteq> []" and "regexMatcher e qs = Some mt"
  shows "compileSearchQuery e (textSearchQuery (Some qs)) =
           Some (\<lambda>v. isPublished v
                    \<and> (mt (title v) \<or> mt (description v)
                       \<or> set (tags v) \<inter> set (map toLowerCase (splitSpace qs)) \<noteq> {}))"
  using assms
  by (auto simp: compileSearchQuery_def textSearchQuery_def compileClause_def fun_eq_iff
      list_ex_iff)

text \<open>
  Claim C5, as the code has it. For a listing request without owner filter, the filter
  admits a record exactly when its publication flag is true and, when a query is present
  (a non-empty text), its title or its description matches the query read as a regular
  expression without regard to case, or one of its tags is among the lower-cased pieces
  of the query between single spaces. For a query without operator characters the match
  is containment without regard to case. In particular the query \<open>CATS\<close> admits every
  published record whose title contains \<open>cats\<close> in any casing.
\<close>

theorem listing_text_filter:
  assumes "map_of (query req) ''userId'' = None \<or> map_of (query req) ''userId'' = Some []"
  shows "(map_of (query req) ''q'' = None \<or> map_of (query req) ''q'' = Some [] \<longrightarrow>
            (\<exists>sq m. listingSearchQuery req = Inr sq \<and> compileSearchQuery e sq = Some m
                \<and> (\<forall>v. m v \<longleftrightarrow> isPublished v)))
         \<and> (map_of (query req) ''q'' = Some qs \<and> qs \<noteq> [] \<and> regexMatcher e qs = Some mt \<longrightarrow>
            (\<exists>sq m. listingSearchQuery req = Inr sq \<and> compileSearchQuery e sq = Some m
                \<and> (\<forall>v. m v \<longleftrightarrow>
                      isPublished v
                      \<and> (mt (title v) \<or> mt (description v)
                         \<or> set (tags v) \<inter> set (map toLowerCase (splitSpace qs)) \<noteq> {}))))
         \<and> (map_of (query req) ''q'' = Some qs \<and> qs \<noteq> [] \<and> isLiteralPattern qs \<longrightarrow>
            (\<exists>sq m. listingSearchQuery req = Inr sq \<and> compileSearchQuery e sq = Some m
                \<and> (\<forall>v. m v \<longleftrightarrow>
                      isPublished v
                      \<and> (containsIgnoringCase qs (title v) \<or> containsIgnoringCase qs (description v)
                         \<or> set (tags v) \<inter> set (map toLowerCase (splitSpace qs)) \<noteq> {}))))
         \<and> (map_of (query req) ''q'' = Some ''CATS'' \<longrightarrow>
            (\<exists>sq m. listingSearchQuery req = Inr sq \<and> compileSearchQuery e sq = Some m
                \<and> (\<forall>v. isPublished v \<and> sublist ''cats'' (toLowerCase (title v)) \<longrightarrow> m v)))"
proof (intro conjI impI)
  assume "map_of (query req) ''q'' = None \<or> map_of (query req) ''q'' = Some []"
  then show "\<exists>sq m. listingSearchQuery req = Inr sq \<and> compileSearchQuery e sq = Some m
                \<and> (\<forall>v. m v \<longleftrightarrow> isPublished v)"
    using listingSearchQuery_text [OF assms] compile_text_absent [of "map_of (query req) ''q''" e]
    by simp
next
  assume "map_of (query req) ''q'' = Some qs \<and> qs \<noteq> [] \<and> regexMatcher e qs = Some mt"
  then show "\<exists>sq m. listingSearchQuery req = Inr sq \<and> compileSearchQuery e sq = Some m
                \<and> (\<forall>v. m v \<longleftrightarrow>
                      isPublished v
                      \<and> (mt (title v) \<or> mt (description v)
                         \<or> set (tags v) \<inter> set (map toLowerCase (splitSpace qs)) \<noteq> {}))"
    using listingSearchQuery_text [OF assms] compile_text_present [of qs e mt]
    by simp
next
  assume a: "map_of (query req) ''q'' = Some qs \<and> qs \<noteq> [] \<and> isLiteralPattern qs"
  then have "regexMatcher e qs = Some (searchPattern qs)"
    by (simp add: regexMatcher_def literal_is_simple)
  with a show "\<exists>sq m. listingSearchQuery req = Inr sq \<and> compileSearchQuery e sq = Some m
                \<and> (\<forall>v. m v \<longleftrightarrow>
                      isPublished v
                      \<and> (containsIgnoringCase qs (title v) \<or> containsIgnoringCase qs (description v)
                         \<or> set (tags v) \<inter> set (map toLowerCase (splitSpace qs)) \<noteq> {}))"
    using listingSearchQuery_text [OF assms] compile_text_present [of qs e "searchPattern qs"]
    by (simp add: searchPattern_literal containsIgnoringCase_def)
next
  assume a: "map_of (query req) ''q'' = Some ''CATS''"
  have lit: "isLiteralPattern ''CATS''"
    by (simp add: isLiteralPattern_def regexOperators_def)
  have low: "toLowerCase ''CATS'' = ''cats''"
    by code_simp
  have "regexMatcher e ''CATS'' = Some (searchPattern ''CATS'')"
    using lit by (simp add: regexMatcher_def literal_is_simple)
  with a show "\<exists>sq m. listingSearchQuery req = Inr sq \<and> compileSearchQuery e sq = Some m
                \<and> (\<forall>v. isPublished v \<and> sublist ''cats'' (toLowerCase (title v)) \<longrightarrow> m v)"
    using listingSearchQuery_text [OF assms]
      compile_text_present [of "''CATS''" e "searchPattern ''CATS''"]
    by (simp add: searchPattern_literal [OF lit] low)
qed

text \<open>
  The example: the query \<open>CATS\<close> on the example store. The listing returns the first record,
  whose title is "Cats playing", and nothing else.
\<close>

theorem listing_text_filter_witness:
  "(map_of (query (exampleRequest [(''q'', ''CATS'')] [])) ''userId'' = None
      \<or> map_of (query (exampleRequest [(''q'', ''CATS'')] [])) ''userId'' = Some [])
   \<and> map_of (query (exampleRequest [(''q'', ''CATS'')] [])) ''q'' = Some ''CATS''
   \<and> ''CATS'' \<noteq> [] \<and> isLiteralPattern ''CATS''
   \<and> (\<exists>sq m. listingSearchQuery (exampleRequest [(''q'', ''CATS'')] []) = Inr sq
         \<and> compileSearchQuery exampleEnvironment sq = Some m
         \<and> m catsVideo \<and> \<not> m dogsVideo \<and> \<not> m draftVideo)
   \<and> fst (getAllVideos exampleEnvironment (exampleRequest [(''q'', ''CATS'')] []) exampleState) =
       Inr (200, listingResponse catsPage)"
proof -
  let ?req = "exampleRequest [(''q'', ''CATS'')] []"
  have owner: "map_of (query ?req) ''userId'' = None \<or> map_of (query ?req) ''userId'' = Some []"
    by (simp add: exampleRequest_def)
  have q: "map_of (query ?req) ''q'' = Some ''CATS''"
    by (simp add: exampleRequest_def)
  have nonempty: "''CATS'' \<noteq> []"
    by simp
  have lit: "isLiteralPattern ''CATS''"
    by code_simp
  have cats: "isPublished catsVideo \<and> containsIgnoringCase ''CATS'' (title catsVideo)"
    by code_simp
  have dogs: "\<not> (containsIgnoringCase ''CATS'' (title dogsVideo)
      \<or> containsIgnoringCase ''CATS'' (description dogsVideo)
      \<or> set (tags dogsVideo) \<inter> set (map toLowerCase (splitSpace ''CATS'')) \<noteq> {})"
    by code_simp
  have draft: "\<not> isPublished draftVideo"
    by (simp add: draftVideo_def)
  have sq: "listingSearchQuery ?req = Inr (textSearchQuery (Some ''CATS''))"
    by code_simp
  have miss: "cache exampleState (generateCacheKey ''all-videos'' (Params (query ?req))) = None"
    by (simp add: exampleState_def)
  have "fst (aggregatePaginate exampleEnvironment
               \<lparr>matchStage = textSearchQuery (Some ''CATS''), sortQuery = listingSortQuery ?req\<rparr>
               (listingOptions ?req) exampleState) = Inr catsPage"
    by code_simp
  then have page: "fst (getAllVideos exampleEnvironment ?req exampleState) =
      Inr (200, listingResponse catsPage)"
    by (simp add: getAllVideos_miss_result [OF sq miss])
  note admits = listing_text_filter
    [OF owner, where qs = "''CATS''" and e = exampleEnvironment,
     THEN conjunct2, THEN conjunct2, THEN conjunct1, rule_format, OF conjI, OF q conjI,
     OF nonempty lit]
  then obtain sq m where "listingSearchQuery ?req = Inr sq"
    and "compileSearchQuery exampleEnvironment sq = Some m"
    and iff: "\<forall>v. m v \<longleftrightarrow>
                isPublished v
                \<and> (containsIgnoringCase ''CATS'' (title v)
                   \<or> containsIgnoringCase ''CATS'' (description v)
                   \<or> set (tags v) \<inter> set (map toLowerCase (splitSpace ''CATS'')) \<noteq> {})"
    by blast
  moreover have "m catsVideo" "\<not> m dogsVideo" "\<not> m draftVideo"
    using iff cats dogs draft by blast+
  ultimately have "\<exists>sq m. listingSearchQuery ?req = Inr sq
         \<and> compileSearchQuery exampleEnvironment sq = Some m
         \<and> m catsVideo \<and> \<not> m dogsVideo \<and> \<not> m draftVideo"
    by blast
  with owner q nonempty lit page show ?thesis
    by (intro conjI)
qed

text \<open>
  Against the claim as it was stated. The query \<open>c.t\<close> is contained in no title, description
  or tag of the first record, yet the listing returns that record: the dot of the regular
  expression stands for the \<open>a\<close> of "Cats". And the query "zz", TAB, "cats" has the token
  \<open>cats\<close> when split on white space, a tag of the first record, yet the listing returns
  nothing: the source splits on the space character only.
\<close>

theorem listing_text_filter_counterexample:
  "\<not> specifiedTextFilter ''c.t'' catsVideo
   \<and> fst (getAllVideos exampleEnvironment (exampleRequest [(''q'', ''c.t'')] []) exampleState) =
       Inr (200, listingResponse catsPage)
   \<and> specifiedTextFilter tabbedQuery catsVideo
   \<and> fst (getAllVideos exampleEnvironment (exampleRequest [(''q'', tabbedQuery)] []) exampleState) =
       Inr (200, listingResponse emptyPage)"
proof -
  let ?dot = "exampleRequest [(''q'', ''c.t'')] []"
  let ?tab = "exampleRequest [(''q'', tabbedQuery)] []"
  have spec_dot: "\<not> specifiedTextFilter ''c.t'' catsVideo"
    by code_simp
  have spec_tab: "specifiedTextFilter tabbedQuery catsVideo"
    by code_simp
  have sq_dot: "listingSearchQuery ?dot = Inr (textSearchQuery (Some ''c.t''))"
    by code_simp
  have sq_tab: "listingSearchQuery ?tab = Inr (textSearchQuery (Some tabbedQuery))"
    by code_simp
  have miss_dot: "cache exampleState (generateCacheKey ''all-videos'' (Params (query ?dot))) = None"
    and miss_tab: "cache exampleState (generateCacheKey ''all-videos'' (Params (query ?tab))) = None"
    by (simp_all add: exampleState_def)
  have page_dot: "fst (aggregatePaginate exampleEnvironment
               \<lparr>matchStage = textSearchQuery (Some ''c.t''), sortQuery = listingSortQuery ?dot\<rparr>
               (listingOptions ?dot) exampleState) = Inr catsPage"
    by code_simp
  have page_tab: "fst (aggregatePaginate exampleEnvironment
               \<lparr>matchStage = textSearchQuery (Some tabbedQuery), sortQuery = listingSortQuery ?tab\<rparr>
               (listingOptions ?tab) exampleState) = Inr emptyPage"
    by code_simp
  have "fst (getAllVideos exampleEnvironment ?dot exampleState) =
      Inr (200, listingResponse catsPage)"
    by (simp add: getAllVideos_miss_result [OF sq_dot miss_dot page_dot])
  moreover have "fst (getAllVideos exampleEnvironment ?tab exampleState) =
      Inr (200, listingResponse emptyPage)"
    by (simp add: getAllVideos_miss_result [OF sq_tab miss_tab page_tab])
  ultimately show ?thesis
    using spec_dot spec_tab by (intro conjI)
qed

end
